theory Spec2Isabelle
  imports Complex_Main "HOL-Library.Log_Nat"
begin

section \<open>The resilience layer of server.js\<close>

text \<open>
  The server relays two upstream resources, \<open>locations\<close> and \<open>states\<close>. Each has a
  last-good cache, a consecutive-failure counter, a backoff deadline and a fallback flag,
  all module-level variables of \<open>server.js\<close>. The embedding keeps them in one record
  that every handler takes and returns. What the outside world supplies during one
  request (the clock readings of \<open>Date.now()\<close>, the answer of \<open>fetch\<close>, the sample
  files, the draws of \<open>Math.random()\<close>) is collected in a record of inputs, so that a
  handler is a function of the configuration, these inputs and the state.
  Log output (\<open>console.warn\<close>, \<open>morgan\<close>) is not modelled.
\<close>

subsection \<open>JavaScript values\<close>

text \<open>
  Payloads are opaque to the server except for their truthiness (\<open>if (cache.data)\<close>)
  and, on the demo path of the states resource, the \<open>state\<close> field of each entry.
  Numbers are rationals: every finite double is one, and only \<open>n = 0\<close> is looked at.
\<close>

datatype js_value =
    JUndefined
  | JNull
  | JBool bool
  | JNum rat
  | JStr string
  | JArr "js_value list"
  | JObj "(string \<times> js_value) list"

fun truthy :: "js_value \<Rightarrow> bool" where
  "truthy JUndefined = False"
| "truthy JNull = False"
| "truthy (JBool b) = b"
| "truthy (JNum n) = (n \<noteq> 0)"
| "truthy (JStr s) = (s \<noteq> [])"
| "truthy (JArr xs) = True"
| "truthy (JObj kvs) = True"

subsection \<open>Configuration and state\<close>

text \<open>
  The constants of lines 15 to 25, after the environment has been read. The numeric ones
  are integers here (\<open>Number(...)\<close> of a decimal setting); a setting that parses to
  \<open>NaN\<close> or to a fraction is outside the model. The field \<open>at\<close> of a cache is
  \<open>cache_at\<close>, and a cache's \<open>data\<close> is \<open>JNull\<close> until the first success.
\<close>

record config =
  BASE :: string
  LOCATIONS_URL :: string
  STATES_URL :: string
  DEMO_CONFIGURED :: bool
  POLL_MS :: int
  UPSTREAM_TIMEOUT_MS :: int
  BACKOFF_AFTER_FAILS :: int
  BACKOFF_WINDOW_MS :: int

record cache =
  data :: js_value
  contentType :: js_value
  cache_at :: int

record state =
  lastLocationsFallback :: bool
  lastStatesFallback :: bool
  cacheLocations :: cache
  cacheStates :: cache
  locFailCount :: int
  statesFailCount :: int
  locNextTryAt :: int
  statesNextTryAt :: int

definition empty_cache :: cache where
  "empty_cache = \<lparr>data = JNull, contentType = JStr ''application/json'', cache_at = 0\<rparr>"

definition initial_state :: state where
  "initial_state =
     \<lparr>lastLocationsFallback = False, lastStatesFallback = False,
      cacheLocations = empty_cache, cacheStates = empty_cache,
      locFailCount = 0, statesFailCount = 0,
      locNextTryAt = 0, statesNextTryAt = 0\<rparr>"

subsection \<open>Backoff policy\<close>

text \<open>
  \<open>shouldBackoff\<close>, \<open>onFail\<close> and \<open>onSuccess\<close> (lines 119 to 147). Each call of
  \<open>Date.now()\<close> is a parameter \<open>t\<close>. \<open>onFail\<close> and \<open>onSuccess\<close> compare the kind with
  \<open>"locations"\<close> and treat every other string as the states resource, as the source does.
\<close>

definition shouldBackoff :: "int \<Rightarrow> int \<Rightarrow> bool" where
  "shouldBackoff t nextTryAt = (t < nextTryAt)"

definition onFail :: "config \<Rightarrow> string \<Rightarrow> int \<Rightarrow> state \<Rightarrow> state" where
  "onFail cfg kind t st =
     (if kind = ''locations'' then
        (let st1 = st\<lparr>locFailCount := locFailCount st + 1\<rparr> in
         if locFailCount st1 \<ge> BACKOFF_AFTER_FAILS cfg
         then st1\<lparr>locNextTryAt := t + BACKOFF_WINDOW_MS cfg, locFailCount := 0\<rparr>
         else st1)
      else
        (let st1 = st\<lparr>statesFailCount := statesFailCount st + 1\<rparr> in
         if statesFailCount st1 \<ge> BACKOFF_AFTER_FAILS cfg
         then st1\<lparr>statesNextTryAt := t + BACKOFF_WINDOW_MS cfg, statesFailCount := 0\<rparr>
         else st1))"

definition onSuccess :: "string \<Rightarrow> state \<Rightarrow> state" where
  "onSuccess kind st =
     (if kind = ''locations''
      then st\<lparr>locFailCount := 0, locNextTryAt := 0\<rparr>
      else st\<lparr>statesFailCount := 0, statesNextTryAt := 0\<rparr>)"

text \<open>The counter and the deadline of a resource, selected as the two functions do.\<close>

definition failCount :: "string \<Rightarrow> state \<Rightarrow> int" where
  "failCount kind st = (if kind = ''locations'' then locFailCount st else statesFailCount st)"

definition nextTryAt :: "string \<Rightarrow> state \<Rightarrow> int" where
  "nextTryAt kind st = (if kind = ''locations'' then locNextTryAt st else statesNextTryAt st)"

subsection \<open>Strings\<close>

text \<open>
  The string operations the source uses: ASCII lower-casing (the content types and the
  letters of the scheme are ASCII), \<open>includes\<close>, and the decimal rendering of a number
  inside a template literal.
\<close>

definition lower_char :: "char \<Rightarrow> char" where
  "lower_char c =
     (let n = (of_char c :: nat) in if 65 \<le> n \<and> n \<le> 90 then char_of (n + 32) else c)"

definition toLowerCase :: "string \<Rightarrow> string" where
  "toLowerCase s = map lower_char s"

fun str_includes :: "string \<Rightarrow> string \<Rightarrow> bool" where
  "str_includes [] sub = (sub = [])"
| "str_includes (c # cs) sub = (take (length sub) (c # cs) = sub \<or> str_includes cs sub)"

definition digit_char :: "nat \<Rightarrow> char" where
  "digit_char d = char_of (48 + d)"

function dec :: "nat \<Rightarrow> string" where
  "dec n = (if n < 10 then [digit_char n] else dec (n div 10) @ [digit_char (n mod 10)])"
  by pat_completeness auto
termination
  by (relation "measure id") auto

declare dec.simps [simp del]

subsection \<open>Resolving an upstream URL\<close>

text \<open>
  \<open>toAbs\<close> (lines 52 to 57). \<open>null\<close> is \<open>None\<close>. The test
  \<open>/^https?:\/\//i\<close> is a case-insensitive prefix test, and
  \<open>replace(/^\/+/, "")\<close> drops the leading slashes.
\<close>

definition is_http_url :: "string \<Rightarrow> bool" where
  "is_http_url s =
     (toLowerCase (take 7 s) = ''http://'' \<or> toLowerCase (take 8 s) = ''https://'')"

definition toAbs :: "config \<Rightarrow> string \<Rightarrow> string option" where
  "toAbs cfg urlOrPath =
     (if urlOrPath = [] then None
      else if is_http_url urlOrPath then Some urlOrPath
      else if BASE cfg = [] then None
      else Some (BASE cfg @ ''/'' @ dropWhile (\<lambda>c. c = CHR ''/'') urlOrPath))"

text \<open>The truthiness of what \<open>toAbs\<close> returns (\<open>remoteUrl && ...\<close>, \<open>!url\<close>).\<close>

definition url_truthy :: "string option \<Rightarrow> bool" where
  "url_truthy u = (case u of None \<Rightarrow> False | Some s \<Rightarrow> s \<noteq> [])"

subsection \<open>The upstream fetcher\<close>

text \<open>
  What \<open>fetch\<close> can do: reject (transport error, abort by the timeout, an argument that
  is no URL), carrying the string \<open>String(e)\<close> of what it throws, or resolve to a
  response. A response is read through its status, its content-type header, and the
  results of \<open>r.text()\<close> and \<open>r.json()\<close>, each of which can itself throw.
\<close>

record http_response =
  r_status :: nat
  r_content_type :: "string option"
  r_text :: "string + string"
  r_json :: "string + js_value"

datatype fetch_result = Rejected string | Resolved http_response

definition r_ok :: "http_response \<Rightarrow> bool" where
  "r_ok r = (200 \<le> r_status r \<and> r_status r \<le> 299)"

text \<open>
  The object \<open>tryRemote\<close> returns. A property the object literal does not have reads as
  \<open>undefined\<close>: \<open>None\<close> for \<open>status\<close> and \<open>error\<close>, \<open>JUndefined\<close> for the others.
\<close>

record outcome =
  ok :: bool
  status :: "nat option"
  error :: "string option"
  o_data :: js_value
  o_text :: js_value
  o_contentType :: js_value

definition fetchWithTimeout ::
  "(string option \<Rightarrow> fetch_result) \<Rightarrow> string option \<Rightarrow> int \<Rightarrow> fetch_result" where
  "fetchWithTimeout fetch url ms = fetch url"

definition caught :: "string \<Rightarrow> outcome" where
  "caught e =
     \<lparr>ok = False, status = Some 502, error = Some e,
      o_data = JUndefined, o_text = JUndefined, o_contentType = JUndefined\<rparr>"

definition tryRemote ::
  "config \<Rightarrow> (string option \<Rightarrow> fetch_result) \<Rightarrow> string option \<Rightarrow> string \<Rightarrow> outcome" where
  "tryRemote cfg fetch url kind =
     (case fetchWithTimeout fetch url (UPSTREAM_TIMEOUT_MS cfg) of
        Rejected e \<Rightarrow> caught e
      | Resolved r \<Rightarrow>
          if \<not> r_ok r then
            \<lparr>ok = False, status = Some (r_status r),
             error = Some (''Upstream '' @ dec (r_status r)),
             o_data = JUndefined,
             o_text = JStr (case r_text r of Inl e \<Rightarrow> [] | Inr txt \<Rightarrow> txt),
             o_contentType = JUndefined\<rparr>
          else
            (let ct = toLowerCase (case r_content_type r of None \<Rightarrow> [] | Some h \<Rightarrow> h) in
             if str_includes ct ''application/json'' \<or> str_includes ct ''+json'' then
               (case r_json r of
                  Inl e \<Rightarrow> caught e
                | Inr d \<Rightarrow>
                    \<lparr>ok = True, status = None, error = None,
                     o_data = d, o_text = JUndefined,
                     o_contentType = JStr ''application/json''\<rparr>)
             else
               (case r_text r of
                  Inl e \<Rightarrow> caught e
                | Inr txt \<Rightarrow>
                    \<lparr>ok = True, status = None, error = None,
                     o_data = JUndefined, o_text = JStr txt,
                     o_contentType =
                       JStr (if ct = [] then ''text/plain; charset=utf-8'' else ct)\<rparr>)))"

subsection \<open>Responses\<close>

text \<open>
  The response object records what a handler calls on \<open>res\<close>: \<open>res.status(n)\<close>,
  \<open>res.setHeader(k, v)\<close> (no handler sets a header twice), \<open>res.type(t)\<close>, and the
  body given to \<open>res.json\<close> or \<open>res.send\<close>. How Express serialises them is its own.
  A handler that throws sends nothing itself (an \<open>async\<close> handler ends in a rejected
  promise): \<open>Threw\<close>, with the string of the error. What Express does with the error
  is not modelled.
\<close>

datatype body = NoBody | Json js_value | Send js_value

record response =
  statusCode :: nat
  headers :: "(string \<times> string) list"
  typeArg :: "js_value option"
  sent :: body

datatype result = Response response | Threw string

definition res :: response where
  "res = \<lparr>statusCode = 200, headers = [], typeArg = None, sent = NoBody\<rparr>"

definition res_status :: "nat \<Rightarrow> response \<Rightarrow> response" where
  "res_status n r = r\<lparr>statusCode := n\<rparr>"

definition res_setHeader :: "string \<Rightarrow> string \<Rightarrow> response \<Rightarrow> response" where
  "res_setHeader k v r = r\<lparr>headers := headers r @ [(k, v)]\<rparr>"

definition res_type :: "js_value \<Rightarrow> response \<Rightarrow> response" where
  "res_type t r = r\<lparr>typeArg := Some t\<rparr>"

definition res_json :: "js_value \<Rightarrow> response \<Rightarrow> response" where
  "res_json v r = r\<lparr>sent := Json v\<rparr>"

definition res_send :: "js_value \<Rightarrow> response \<Rightarrow> response" where
  "res_send v r = r\<lparr>sent := Send v\<rparr>"

subsection \<open>What one request reads from outside\<close>

text \<open>
  \<open>now_request\<close> is \<open>const now = Date.now()\<close> at the top of a resource handler,
  \<open>now_gate\<close> the reading inside \<open>shouldBackoff\<close>, \<open>now_fail\<close> the one inside
  \<open>onFail\<close>. \<open>fetch k\<close> is the platform's \<open>fetch\<close> at the \<open>k\<close>-th call the request
  makes. \<open>locations_geojson\<close> is the result of reading
  \<open>sample-data/locations.geojson\<close>, \<open>states_json\<close> that of
  \<open>readDemoJSON("sample-data/states.json")\<close> (reading and \<open>JSON.parse\<close>), \<open>Inl\<close> when
  it throws. \<open>random k\<close> is the \<open>k\<close>-th result of \<open>Math.random()\<close>, and \<open>url_origin\<close> is
  \<open>new URL(s).origin\<close>. The two sample files are not among the sources, so their
  contents are inputs.
\<close>

record inputs =
  now_request :: int
  now_gate :: int
  now_fail :: int
  fetch :: "nat \<Rightarrow> string option \<Rightarrow> fetch_result"
  locations_geojson :: "string + string"
  states_json :: "string + js_value"
  random :: "nat \<Rightarrow> rat"
  url_origin :: "string \<Rightarrow> string + string"

subsection \<open>The locations handler\<close>

text \<open>
  The handler suspends once, at \<open>await tryRemote(...)\<close>. \<open>locations_begin\<close> is the
  code before that point (lines 151 to 157) and \<open>locations_resume\<close> the code after it
  (lines 158 to 168); both continue into \<open>locations_fallback\<close> (lines 171 to 187) when
  no live answer is returned. (The demo path also awaits the file read, after its last
  change of the state.) \<open>locations_handler\<close> runs a request from start to end, with
  no other request in between, and also returns the URLs it handed to \<open>tryRemote\<close>.
\<close>

definition locations_fallback :: "config \<Rightarrow> inputs \<Rightarrow> state \<Rightarrow> state \<times> result" where
  "locations_fallback cfg inp st =
     (if truthy (data (cacheLocations st)) then
        (let r = res_setHeader ''X-Cache'' ''hit-locations'' res in
         (st, Response
            (if contentType (cacheLocations st) = JStr ''application/json''
             then res_json (data (cacheLocations st)) r
             else res_send (data (cacheLocations st))
                    (res_type (contentType (cacheLocations st)) r))))
      else if DEMO_CONFIGURED cfg then
        (let st1 = st\<lparr>lastLocationsFallback := True\<rparr>;
             r = res_setHeader ''X-Demo-Fallback'' ''locations'' res in
         case locations_geojson inp of
           Inl e \<Rightarrow> (st1, Threw e)
         | Inr text \<Rightarrow>
             (st1, Response (res_send (JStr text) (res_type (JStr ''application/json'') r))))
      else
        (st, Response
           (res_json (JObj [(''error'', JStr ''LOCATIONS_URL failed, and demo mode disabled'')])
              (res_status 500 res))))"

datatype step = Await "string option" state | Done state result

definition locations_begin :: "config \<Rightarrow> inputs \<Rightarrow> state \<Rightarrow> step" where
  "locations_begin cfg inp st =
     (let st1 = st\<lparr>lastLocationsFallback := False\<rparr>;
          remoteUrl = toAbs cfg (LOCATIONS_URL cfg) in
      if url_truthy remoteUrl \<and> \<not> shouldBackoff (now_gate inp) (locNextTryAt st1)
      then Await remoteUrl st1
      else (case locations_fallback cfg inp st1 of (st2, r) \<Rightarrow> Done st2 r))"

definition locations_resume ::
  "config \<Rightarrow> inputs \<Rightarrow> int \<Rightarrow> outcome \<Rightarrow> state \<Rightarrow> state \<times> result" where
  "locations_resume cfg inp now out st =
     (if ok out then
        (let st1 = onSuccess ''locations'' st in
         if o_contentType out = JStr ''application/json'' then
           (st1\<lparr>cacheLocations :=
                  \<lparr>data = o_data out, contentType = o_contentType out, cache_at = now\<rparr>\<rparr>,
            Response (res_json (o_data out) res))
         else
           (st1\<lparr>cacheLocations :=
                  \<lparr>data = o_text out, contentType = o_contentType out, cache_at = now\<rparr>\<rparr>,
            Response (res_send (o_text out) (res_type (o_contentType out) res))))
      else locations_fallback cfg inp (onFail cfg ''locations'' (now_fail inp) st))"

definition locations_handler ::
  "config \<Rightarrow> inputs \<Rightarrow> state \<Rightarrow> state \<times> result \<times> string option list" where
  "locations_handler cfg inp st =
     (case locations_begin cfg inp st of
        Done st1 r \<Rightarrow> (st1, r, [])
      | Await url st1 \<Rightarrow>
          (let out = tryRemote cfg (fetch inp 0) url ''locations'' in
           case locations_resume cfg inp (now_request inp) out st1 of
             (st2, r) \<Rightarrow> (st2, r, [url])))"

subsection \<open>Products of doubles\<close>

text \<open>
  \<open>Math.random() * candidates.length\<close> is a product of two doubles: the exact product,
  rounded to the nearest double, ties to the even significand. Doubles are kept as the
  rationals they are. \<open>exponent x\<close> is the integer \<open>e\<close> with \<open>2^e \<le> x < 2^(e+1)\<close>, for
  \<open>x > 0\<close>; \<open>ulp x\<close> is the distance between neighbouring doubles at \<open>x\<close> (53-bit
  significands, the subnormal spacing below \<open>2^-1022\<close>); \<open>fl x\<close> is the double nearest
  to \<open>x\<close>. Overflow to infinity (from \<open>2^1024\<close> on) is not modelled.
\<close>

definition exponent :: "rat \<Rightarrow> int" where
  "exponent x = (if 1 \<le> x then bitlen \<lfloor>x\<rfloor> - 1 else - bitlen (\<lceil>1 / x\<rceil> - 1))"

definition ulp :: "rat \<Rightarrow> rat" where
  "ulp x =
     (let k = max (exponent x) (- 1022) - 52 in
      if 0 \<le> k then 2 ^ nat k else 1 / 2 ^ nat (- k))"

definition round_even :: "rat \<Rightarrow> int" where
  "round_even q =
     (let f = \<lfloor>q\<rfloor>; r = q - of_int f in
      if r < 1 / 2 then f else if 1 / 2 < r then f + 1 else if even f then f else f + 1)"

definition fl :: "rat \<Rightarrow> rat" where
  "fl x =
     (if x = 0 then 0
      else if 0 < x then of_int (round_even (x / ulp x)) * ulp x
      else - (of_int (round_even (- x / ulp (- x))) * ulp (- x)))"

subsection \<open>Demo data for the states resource\<close>

text \<open>
  Lines 224 to 230. \<open>spread s\<close> is the list of own properties \<open>{...s}\<close> copies, in
  their order: those of an object, the indexed elements of an array, the indexed
  characters of a string (its code units, which are the characters of an ASCII string),
  none for the other values. \<open>get_state s\<close> is \<open>s.state\<close>, which throws on \<open>null\<close> and
  \<open>undefined\<close>. \<open>set_prop\<close> defines a property of an object literal: an existing key
  keeps its place, a new one goes last. \<open>pick v\<close> is
  \<open>candidates[Math.floor(v * candidates.length)]\<close>, the product being one of doubles. \<open>randomize\<close> is the callback of
  \<open>base.map\<close> run over the entries in order, with \<open>k\<close> the number of draws already
  taken: the second draw of an entry is taken only when the first is below 0.25, and the
  first entry that throws ends the whole \<open>map\<close>.
\<close>

definition candidates :: "string list" where
  "candidates =
     [''1'', ''4'', ''5'', ''9'', ''12'', ''14'', ''16'', ''17'', ''18'', ''19'', ''22'', ''23'']"

fun indexed :: "nat \<Rightarrow> js_value list \<Rightarrow> (string \<times> js_value) list" where
  "indexed i [] = []"
| "indexed i (x # xs) = (dec i, x) # indexed (Suc i) xs"

fun spread :: "js_value \<Rightarrow> (string \<times> js_value) list" where
  "spread (JObj kvs) = kvs"
| "spread (JArr xs) = indexed 0 xs"
| "spread (JStr cs) = indexed 0 (map (\<lambda>c. JStr [c]) cs)"
| "spread v = []"

fun get_prop :: "string \<Rightarrow> (string \<times> js_value) list \<Rightarrow> js_value" where
  "get_prop k [] = JUndefined"
| "get_prop k (p # ps) = (if fst p = k then snd p else get_prop k ps)"

fun set_prop :: "string \<Rightarrow> js_value \<Rightarrow> (string \<times> js_value) list \<Rightarrow> (string \<times> js_value) list" where
  "set_prop k v [] = [(k, v)]"
| "set_prop k v (p # ps) = (if fst p = k then (k, v) # ps else p # set_prop k v ps)"

fun get_state :: "js_value \<Rightarrow> string + js_value" where
  "get_state JUndefined = Inl ''TypeError''"
| "get_state JNull = Inl ''TypeError''"
| "get_state (JObj kvs) = Inr (get_prop ''state'' kvs)"
| "get_state v = Inr JUndefined"

definition pick :: "rat \<Rightarrow> js_value" where
  "pick v =
     (let i = \<lfloor>fl (v * of_nat (length candidates))\<rfloor> in
      if 0 \<le> i \<and> i < int (length candidates) then JStr (candidates ! nat i) else JUndefined)"

fun randomize :: "(nat \<Rightarrow> rat) \<Rightarrow> nat \<Rightarrow> js_value list \<Rightarrow> string + js_value list" where
  "randomize rnd k [] = Inr []"
| "randomize rnd k (s # ss) =
     (if rnd k < 1 / 4 then
        (case randomize rnd (k + 2) ss of
           Inl e \<Rightarrow> Inl e
         | Inr rest \<Rightarrow> Inr (JObj (set_prop ''state'' (pick (rnd (k + 1))) (spread s)) # rest))
      else
        (case get_state s of
           Inl e \<Rightarrow> Inl e
         | Inr v \<Rightarrow>
             (case randomize rnd (k + 1) ss of
                Inl e \<Rightarrow> Inl e
              | Inr rest \<Rightarrow> Inr (JObj (set_prop ''state'' v (spread s)) # rest))))"


subsection \<open>The states handler\<close>

text \<open>Lines 191 to 234, split at the \<open>await\<close> as the locations handler is.\<close>

definition states_fallback :: "config \<Rightarrow> inputs \<Rightarrow> state \<Rightarrow> state \<times> result" where
  "states_fallback cfg inp st =
     (if truthy (data (cacheStates st)) then
        (let r = res_setHeader ''X-Cache'' ''hit-states'' res in
         (st, Response
            (if contentType (cacheStates st) = JStr ''application/json''
             then res_json (data (cacheStates st)) r
             else res_send (data (cacheStates st))
                    (res_type (contentType (cacheStates st)) r))))
      else if DEMO_CONFIGURED cfg then
        (let st1 = st\<lparr>lastStatesFallback := True\<rparr>;
             r = res_setHeader ''X-Demo-Fallback'' ''states'' res in
         case states_json inp of
           Inl e \<Rightarrow> (st1, Threw e)
         | Inr base \<Rightarrow>
             (case base of
                JArr entries \<Rightarrow>
                  (case randomize (random inp) 0 entries of
                     Inl e \<Rightarrow> (st1, Threw e)
                   | Inr randomized \<Rightarrow> (st1, Response (res_json (JArr randomized) r)))
              | _ \<Rightarrow> (st1, Threw ''TypeError'')))
      else
        (st, Response
           (res_json (JObj [(''error'', JStr ''STATES_URL failed, and demo mode disabled'')])
              (res_status 500 res))))"

definition states_begin :: "config \<Rightarrow> inputs \<Rightarrow> state \<Rightarrow> step" where
  "states_begin cfg inp st =
     (let st1 = st\<lparr>lastStatesFallback := False\<rparr>;
          remoteUrl = toAbs cfg (STATES_URL cfg) in
      if url_truthy remoteUrl \<and> \<not> shouldBackoff (now_gate inp) (statesNextTryAt st1)
      then Await remoteUrl st1
      else (case states_fallback cfg inp st1 of (st2, r) \<Rightarrow> Done st2 r))"

definition states_resume ::
  "config \<Rightarrow> inputs \<Rightarrow> int \<Rightarrow> outcome \<Rightarrow> state \<Rightarrow> state \<times> result" where
  "states_resume cfg inp now out st =
     (if ok out then
        (let st1 = onSuccess ''states'' st in
         if o_contentType out = JStr ''application/json'' then
           (st1\<lparr>cacheStates :=
                  \<lparr>data = o_data out, contentType = o_contentType out, cache_at = now\<rparr>\<rparr>,
            Response (res_json (o_data out) res))
         else
           (st1\<lparr>cacheStates :=
                  \<lparr>data = o_text out, contentType = o_contentType out, cache_at = now\<rparr>\<rparr>,
            Response (res_send (o_text out) (res_type (o_contentType out) res))))
      else states_fallback cfg inp (onFail cfg ''states'' (now_fail inp) st))"

definition states_handler ::
  "config \<Rightarrow> inputs \<Rightarrow> state \<Rightarrow> state \<times> result \<times> string option list" where
  "states_handler cfg inp st =
     (case states_begin cfg inp st of
        Done st1 r \<Rightarrow> (st1, r, [])
      | Await url st1 \<Rightarrow>
          (let out = tryRemote cfg (fetch inp 0) url ''states'' in
           case states_resume cfg inp (now_request inp) out st1 of
             (st2, r) \<Rightarrow> (st2, r, [url])))"

subsection \<open>The other endpoints\<close>

text \<open>
  \<open>/config\<close> (lines 59 to 78) reports the flags, counters and deadlines. \<open>new URL(BASE)\<close>
  throws on a base that is no URL, and then the handler sends no report: \<open>Threw\<close>.
\<close>

definition config_handler :: "config \<Rightarrow> inputs \<Rightarrow> state \<Rightarrow> state \<times> result \<times> string option list" where
  "config_handler cfg inp st =
     (case (if BASE cfg \<noteq> [] then map_sum id JStr (url_origin inp (BASE cfg)) else Inr JNull) of
        Inl e \<Rightarrow> (st, Threw e, [])
      | Inr base \<Rightarrow>
          (st, Response (res_json (JObj
             [(''pollIntervalMs'', JNum (of_int (POLL_MS cfg))),
              (''demoConfigured'', JBool (DEMO_CONFIGURED cfg)),
              (''fallbackActive'', JObj
                 [(''locations'', JBool (lastLocationsFallback st)),
                  (''states'', JBool (lastStatesFallback st))]),
              (''usingRemote'', JBool (LOCATIONS_URL cfg \<noteq> [] \<and> STATES_URL cfg \<noteq> [])),
              (''base'', base),
              (''upstream'', JObj
                 [(''timeoutMs'', JNum (of_int (UPSTREAM_TIMEOUT_MS cfg))),
                  (''backoffAfterFails'', JNum (of_int (BACKOFF_AFTER_FAILS cfg))),
                  (''backoffWindowMs'', JNum (of_int (BACKOFF_WINDOW_MS cfg))),
                  (''locFailCount'', JNum (of_int (locFailCount st))),
                  (''statesFailCount'', JNum (of_int (statesFailCount st))),
                  (''locNextTryAt'', JNum (of_int (locNextTryAt st))),
                  (''statesNextTryAt'', JNum (of_int (statesNextTryAt st)))])]) res), []))"

text \<open>
  \<open>/api/proxy\<close> (lines 237 to 245). \<open>p\<close> is \<open>(req.query.path || "").toString()\<close>.
  \<open>out.status || 502\<close> and \<open>out.text || out.error || "Proxy error"\<close> take the first
  truthy operand.
\<close>

definition proxy_handler ::
  "config \<Rightarrow> inputs \<Rightarrow> string \<Rightarrow> state \<Rightarrow> state \<times> result \<times> string option list" where
  "proxy_handler cfg inp p st =
     (let url = toAbs cfg p in
      if \<not> url_truthy url then
        (st, Response (res_json (JObj [(''error'', JStr ''Invalid path or base not set'')])
                         (res_status 400 res)), [])
      else
        (let out = tryRemote cfg (fetch inp 0) url ''proxy'' in
         if \<not> ok out then
           (st, Response
              (res_send
                 (if truthy (o_text out) then o_text out
                  else (case error out of
                          Some e \<Rightarrow> if e \<noteq> [] then JStr e else JStr ''Proxy error''
                        | None \<Rightarrow> JStr ''Proxy error''))
                 (res_status
                    (case status out of Some n \<Rightarrow> if n \<noteq> 0 then n else 502 | None \<Rightarrow> 502)
                    res)), [url])
         else if o_contentType out = JStr ''application/json'' then
           (st, Response (res_json (o_data out) res), [url])
         else
           (st, Response (res_send (o_text out) (res_type (o_contentType out) res)), [url])))"

text \<open>
  \<open>/health\<close> (lines 248 to 261): one probe per configured resource, the second call of
  \<open>fetch\<close> being the request's second only when the first probe was made.
\<close>

definition probe :: "outcome \<Rightarrow> js_value" where
  "probe r =
     JObj [(''ok'', JBool (ok r)),
           (''status'', JNum (of_nat
              (case status r of Some n \<Rightarrow> if n \<noteq> 0 then n else 200 | None \<Rightarrow> 200)))]"

definition unprobed :: js_value where
  "unprobed = JObj [(''ok'', JBool False), (''status'', JNum 400)]"

definition health_handler ::
  "config \<Rightarrow> inputs \<Rightarrow> state \<Rightarrow> state \<times> result \<times> string option list" where
  "health_handler cfg inp st =
     (let (locations, calls1) =
            (if LOCATIONS_URL cfg \<noteq> [] then
               (probe (tryRemote cfg (fetch inp 0) (toAbs cfg (LOCATIONS_URL cfg)) ''locations''),
                [toAbs cfg (LOCATIONS_URL cfg)])
             else (unprobed, []));
          (states, calls2) =
            (if STATES_URL cfg \<noteq> [] then
               (probe (tryRemote cfg (fetch inp (length calls1)) (toAbs cfg (STATES_URL cfg))
                         ''states''),
                [toAbs cfg (STATES_URL cfg)])
             else (unprobed, []))
      in (st,
          Response (res_json (JObj [(''results'',
                      JObj [(''locations'', locations), (''states'', states)])]) res),
          calls1 @ calls2))"

subsection \<open>Requests one after another\<close>

text \<open>
  A request names its route; \<open>handle\<close> dispatches it. \<open>run\<close> serves a list of requests,
  each with its own inputs, one after the other, each handler running to its end before
  the next starts, and returns the final state with every request's result and calls.
\<close>

datatype request = GetLocations | GetStates | GetConfig | GetHealth | GetProxy string

fun handle ::
  "config \<Rightarrow> request \<Rightarrow> inputs \<Rightarrow> state \<Rightarrow> state \<times> result \<times> string option list" where
  "handle cfg GetLocations inp st = locations_handler cfg inp st"
| "handle cfg GetStates inp st = states_handler cfg inp st"
| "handle cfg GetConfig inp st = config_handler cfg inp st"
| "handle cfg GetHealth inp st = health_handler cfg inp st"
| "handle cfg (GetProxy p) inp st = proxy_handler cfg inp p st"

fun run ::
  "config \<Rightarrow> (request \<times> inputs) list \<Rightarrow> state \<Rightarrow> state \<times> (result \<times> string option list) list" where
  "run cfg [] st = (st, [])"
| "run cfg ((rq, inp) # rest) st =
     (case handle cfg rq inp st of
        (st1, reply) \<Rightarrow> (case run cfg rest st1 of (st2, replies) \<Rightarrow> (st2, reply # replies)))"

subsection \<open>Consecutive failures\<close>

text \<open>
  \<open>fails cfg kind ts st\<close> is the state after one call of \<open>onFail(kind)\<close> per element of
  \<open>ts\<close>, the clock reading of each call, with no success in between.
\<close>

fun fails :: "config \<Rightarrow> string \<Rightarrow> int list \<Rightarrow> state \<Rightarrow> state" where
  "fails cfg kind [] st = st"
| "fails cfg kind (t # ts) st = fails cfg kind ts (onFail cfg kind t st)"

subsection \<open>A sample configuration\<close>

text \<open>
  The defaults of lines 15 to 25 with both upstream URLs set, and inputs of a request
  whose upstream times out; the theorems below are instantiated at them.
\<close>

definition cfg_ex :: config where
  "cfg_ex =
     \<lparr>BASE = [], LOCATIONS_URL = ''http://up/l'', STATES_URL = ''http://up/s'',
      DEMO_CONFIGURED = True, POLL_MS = 2000, UPSTREAM_TIMEOUT_MS = 3000,
      BACKOFF_AFTER_FAILS = 3, BACKOFF_WINDOW_MS = 30000\<rparr>"

definition inp_ex :: inputs where
  "inp_ex =
     \<lparr>now_request = 1000, now_gate = 1000, now_fail = 4000,
      fetch = (\<lambda>k u. Rejected ''Error: timeout''),
      locations_geojson = Inr ''{}'',
      states_json = Inr (JArr [JObj [(''id'', JStr ''a''), (''state'', JStr ''3'')],
                               JObj [(''id'', JStr ''b''), (''state'', JStr ''7'')]]),
      random = (\<lambda>k. if k = 0 then 1 / 8 else 1 / 2),
      url_origin = (\<lambda>s. Inr s)\<rparr>"

text \<open>
  A state inside a backoff window of both resources, a configuration with no upstream
  URL at all, and three requests made while the windows are open.
\<close>

definition st_backoff :: state where
  "st_backoff = initial_state\<lparr>locNextTryAt := 31000, statesNextTryAt := 31000\<rparr>"

definition cfg_local :: config where
  "cfg_local = cfg_ex\<lparr>LOCATIONS_URL := [], STATES_URL := []\<rparr>"

definition reqs_ex :: "(request \<times> inputs) list" where
  "reqs_ex =
     [(GetLocations, inp_ex), (GetStates, inp_ex), (GetLocations, inp_ex\<lparr>now_gate := 30999\<rparr>)]"

text \<open>Inputs of a request whose upstream answers 200 with a JSON array.\<close>

definition inp_ok :: inputs where
  "inp_ok =
     inp_ex\<lparr>fetch := (\<lambda>k u. Resolved
        \<lparr>r_status = 200, r_content_type = Some ''application/json; charset=utf-8'',
         r_text = Inr ''[1]'', r_json = Inr (JArr [JNum 1])\<rparr>)\<rparr>"

text \<open>A health probe followed by a successful request to each resource.\<close>

definition reqs_live :: "(request \<times> inputs) list" where
  "reqs_live = [(GetHealth, inp_ex), (GetLocations, inp_ok), (GetStates, inp_ok)]"

text \<open>The sample configuration with demo mode switched off.\<close>

definition cfg_nodemo :: config where
  "cfg_nodemo = cfg_ex\<lparr>DEMO_CONFIGURED := False\<rparr>"

text \<open>Inputs of a request whose upstream answers 200 with an empty plain-text body.\<close>

definition inp_empty :: inputs where
  "inp_empty =
     inp_ex\<lparr>fetch := (\<lambda>k u. Resolved
        \<lparr>r_status = 200, r_content_type = Some ''text/plain'',
         r_text = Inr [], r_json = Inl ''SyntaxError: Unexpected end of JSON input''\<rparr>)\<rparr>"

text \<open>A state whose caches hold a JSON array and a text, from earlier successes.\<close>

definition st_cached :: state where
  "st_cached =
     initial_state
       \<lparr>cacheLocations :=
          \<lparr>data = JArr [JNum 1], contentType = JStr ''application/json'', cache_at = 1000\<rparr>,
        cacheStates :=
          \<lparr>data = JStr ''id,state'', contentType = JStr ''text/csv'', cache_at = 1000\<rparr>\<rparr>"

text \<open>
  A state left behind by a demo answer to both resources, with truthy caches, and the
  requests that follow a locations request in the sample history.
\<close>

definition st_flagged :: state where
  "st_flagged = st_cached\<lparr>lastLocationsFallback := True, lastStatesFallback := True\<rparr>"

definition reqs_after :: "(request \<times> inputs) list" where
  "reqs_after = [(GetConfig, inp_ex), (GetHealth, inp_ok)]"

text \<open>
  A configuration whose upstream URLs are relative while no base is set, so that \<open>toAbs\<close>
  resolves neither, and inputs whose \<open>fetch\<close> rejects an argument that is no URL, as the
  platform's does.
\<close>

definition cfg_rel :: config where
  "cfg_rel = cfg_ex\<lparr>LOCATIONS_URL := ''locations.json'', STATES_URL := ''states.json''\<rparr>"

definition inp_absent :: inputs where
  "inp_absent =
     inp_ex\<lparr>fetch := (\<lambda>k u. case u of
        None \<Rightarrow> Rejected ''TypeError: Failed to parse URL from null''
      | Some s \<Rightarrow> Rejected ''Error: timeout'')\<rparr>"

text \<open>
  Inputs of a request whose upstream times out while the demo file of the locations
  cannot be read, and the sample configuration with only the locations URL unset.
\<close>

definition inp_unreadable :: inputs where
  "inp_unreadable =
     inp_ex\<lparr>locations_geojson := Inl ''Error: ENOENT: no such file or directory''\<rparr>"

definition cfg_half :: config where
  "cfg_half = cfg_ex\<lparr>LOCATIONS_URL := []\<rparr>"

section \<open>Theorems\<close>

subsection \<open>Transitions of the backoff policy\<close>

lemma failCount_onFail:
  "failCount kind (onFail cfg kind t st) =
     (if BACKOFF_AFTER_FAILS cfg \<le> failCount kind st + 1 then 0 else failCount kind st + 1)"
  by (simp add: failCount_def onFail_def Let_def)

lemma nextTryAt_onFail:
  "nextTryAt kind (onFail cfg kind t st) =
     (if BACKOFF_AFTER_FAILS cfg \<le> failCount kind st + 1
      then t + BACKOFF_WINDOW_MS cfg else nextTryAt kind st)"
  by (simp add: failCount_def nextTryAt_def onFail_def Let_def)

lemma onSuccess_resets:
  "failCount kind (onSuccess kind st) = 0 \<and> nextTryAt kind (onSuccess kind st) = 0"
  by (simp add: failCount_def nextTryAt_def onSuccess_def)

text \<open>
  Claim C2. A failure adds one to the resource's counter; when the new count is at or
  above \<open>BACKOFF_AFTER_FAILS\<close> the deadline becomes \<open>now + BACKOFF_WINDOW_MS\<close> and the
  counter goes back to 0, and otherwise the deadline is left alone and the counter keeps
  the new count. While the counter is below the threshold before the failure (which the
  reset maintains), the window opens exactly when the new count equals the threshold.
  A success sets the counter and the deadline to 0 whatever they were.
\<close>

theorem onFail_onSuccess_transitions:
  "failCount kind (onFail cfg kind t st) =
     (if BACKOFF_AFTER_FAILS cfg \<le> failCount kind st + 1 then 0 else failCount kind st + 1)
   \<and> nextTryAt kind (onFail cfg kind t st) =
     (if BACKOFF_AFTER_FAILS cfg \<le> failCount kind st + 1
      then t + BACKOFF_WINDOW_MS cfg else nextTryAt kind st)
   \<and> (failCount kind st < BACKOFF_AFTER_FAILS cfg \<longrightarrow>
        failCount kind (onFail cfg kind t st) =
          (if failCount kind st + 1 = BACKOFF_AFTER_FAILS cfg then 0 else failCount kind st + 1)
        \<and> nextTryAt kind (onFail cfg kind t st) =
          (if failCount kind st + 1 = BACKOFF_AFTER_FAILS cfg
           then t + BACKOFF_WINDOW_MS cfg else nextTryAt kind st))
   \<and> failCount kind (onSuccess kind st) = 0
   \<and> nextTryAt kind (onSuccess kind st) = 0"
  by (auto simp add: failCount_onFail nextTryAt_onFail onSuccess_resets)

theorem onFail_onSuccess_transitions_witness:
  "locFailCount (initial_state\<lparr>locFailCount := 2\<rparr>) < BACKOFF_AFTER_FAILS cfg_ex
   \<and> locFailCount (onFail cfg_ex ''locations'' 1000 (initial_state\<lparr>locFailCount := 2\<rparr>)) = 0
   \<and> locNextTryAt (onFail cfg_ex ''locations'' 1000 (initial_state\<lparr>locFailCount := 2\<rparr>)) = 31000
   \<and> locFailCount (onSuccess ''locations'' (initial_state\<lparr>locFailCount := 2\<rparr>)) = 0
   \<and> locNextTryAt (onSuccess ''locations'' (initial_state\<lparr>locFailCount := 2\<rparr>)) = 0"
  using onFail_onSuccess_transitions
    [of "''locations''" cfg_ex 1000 "initial_state\<lparr>locFailCount := 2\<rparr>"]
  by (simp add: failCount_def nextTryAt_def cfg_ex_def initial_state_def)

subsection \<open>Reopening a backoff window\<close>

lemma fails_below_threshold:
  "0 \<le> failCount kind st \<Longrightarrow> failCount kind st + int (length ts) < BACKOFF_AFTER_FAILS cfg \<Longrightarrow>
   failCount kind (fails cfg kind ts st) = failCount kind st + int (length ts)
   \<and> nextTryAt kind (fails cfg kind ts st) = nextTryAt kind st"
proof (induction ts arbitrary: st)
  case Nil
  then show ?case by simp
next
  case (Cons t ts)
  have c: "failCount kind (onFail cfg kind t st) = failCount kind st + 1"
    and n: "nextTryAt kind (onFail cfg kind t st) = nextTryAt kind st"
    using Cons.prems by (simp_all add: failCount_onFail nextTryAt_onFail)
  have "failCount kind (fails cfg kind ts (onFail cfg kind t st)) =
          failCount kind (onFail cfg kind t st) + int (length ts)
        \<and> nextTryAt kind (fails cfg kind ts (onFail cfg kind t st)) =
          nextTryAt kind (onFail cfg kind t st)"
    using Cons.prems c by (intro Cons.IH) simp_all
  then show ?case by (simp add: c n)
qed

lemma fails_snoc: "fails cfg kind (ts @ [t]) st = onFail cfg kind t (fails cfg kind ts st)"
  by (induction ts arbitrary: st) simp_all

text \<open>
  Claim C3. Take the state right after a failure that tripped the backoff (threshold at
  least 1): its counter is 0 and its deadline is that failure's time plus the window.
  From there, any run of consecutive failures shorter than \<open>BACKOFF_AFTER_FAILS\<close> leaves
  the deadline where it was and only counts; the failure that makes the run exactly
  \<open>BACKOFF_AFTER_FAILS\<close> long sets the next deadline and resets the counter. With a
  threshold of 2 or more, one failure after the trip therefore opens no new window.
\<close>

theorem retrip_needs_threshold_failures:
  assumes thr: "1 \<le> BACKOFF_AFTER_FAILS cfg"
    and trip: "BACKOFF_AFTER_FAILS cfg \<le> failCount kind st0 + 1"
  shows "failCount kind (onFail cfg kind t0 st0) = 0
    \<and> nextTryAt kind (onFail cfg kind t0 st0) = t0 + BACKOFF_WINDOW_MS cfg
    \<and> (\<forall>ts. int (length ts) < BACKOFF_AFTER_FAILS cfg \<longrightarrow>
          nextTryAt kind (fails cfg kind ts (onFail cfg kind t0 st0)) = t0 + BACKOFF_WINDOW_MS cfg
          \<and> failCount kind (fails cfg kind ts (onFail cfg kind t0 st0)) = int (length ts))
    \<and> (\<forall>ts t. int (length ts) + 1 = BACKOFF_AFTER_FAILS cfg \<longrightarrow>
          nextTryAt kind (fails cfg kind (ts @ [t]) (onFail cfg kind t0 st0)) = t + BACKOFF_WINDOW_MS cfg
          \<and> failCount kind (fails cfg kind (ts @ [t]) (onFail cfg kind t0 st0)) = 0)
    \<and> (2 \<le> BACKOFF_AFTER_FAILS cfg \<longrightarrow>
          (\<forall>t. nextTryAt kind (onFail cfg kind t (onFail cfg kind t0 st0)) = t0 + BACKOFF_WINDOW_MS cfg
              \<and> failCount kind (onFail cfg kind t (onFail cfg kind t0 st0)) = 1))"
proof -
  let ?st = "onFail cfg kind t0 st0"
  have c0: "failCount kind ?st = 0" and n0: "nextTryAt kind ?st = t0 + BACKOFF_WINDOW_MS cfg"
    using trip by (simp_all add: failCount_onFail nextTryAt_onFail)
  have below: "nextTryAt kind (fails cfg kind ts ?st) = t0 + BACKOFF_WINDOW_MS cfg
      \<and> failCount kind (fails cfg kind ts ?st) = int (length ts)"
    if "int (length ts) < BACKOFF_AFTER_FAILS cfg" for ts
    using fails_below_threshold [of kind ?st ts cfg] that c0 n0 by simp
  have at: "nextTryAt kind (fails cfg kind (ts @ [t]) ?st) = t + BACKOFF_WINDOW_MS cfg
      \<and> failCount kind (fails cfg kind (ts @ [t]) ?st) = 0"
    if "int (length ts) + 1 = BACKOFF_AFTER_FAILS cfg" for ts t
  proof -
    have "failCount kind (fails cfg kind ts ?st) = int (length ts)"
      using below [of ts] that by simp
    then show ?thesis
      using that by (simp add: fails_snoc failCount_onFail nextTryAt_onFail)
  qed
  have single: "nextTryAt kind (onFail cfg kind t ?st) = t0 + BACKOFF_WINDOW_MS cfg
      \<and> failCount kind (onFail cfg kind t ?st) = 1"
    if "2 \<le> BACKOFF_AFTER_FAILS cfg" for t
    using below [of "[t]"] that by simp
  show ?thesis using c0 n0 below at single by blast
qed

theorem retrip_needs_threshold_failures_witness:
  "1 \<le> BACKOFF_AFTER_FAILS cfg_ex
   \<and> BACKOFF_AFTER_FAILS cfg_ex \<le> locFailCount (initial_state\<lparr>locFailCount := 2\<rparr>) + 1
   \<and> locNextTryAt (fails cfg_ex ''locations'' [40000, 41000]
        (onFail cfg_ex ''locations'' 1000 (initial_state\<lparr>locFailCount := 2\<rparr>))) = 31000
   \<and> locFailCount (fails cfg_ex ''locations'' [40000, 41000]
        (onFail cfg_ex ''locations'' 1000 (initial_state\<lparr>locFailCount := 2\<rparr>))) = 2
   \<and> locNextTryAt (fails cfg_ex ''locations'' ([40000, 41000] @ [42000])
        (onFail cfg_ex ''locations'' 1000 (initial_state\<lparr>locFailCount := 2\<rparr>))) = 72000
   \<and> locNextTryAt (onFail cfg_ex ''locations'' 40000
        (onFail cfg_ex ''locations'' 1000 (initial_state\<lparr>locFailCount := 2\<rparr>))) = 31000"
proof -
  have thr: "1 \<le> BACKOFF_AFTER_FAILS cfg_ex" by (simp add: cfg_ex_def)
  have trip: "BACKOFF_AFTER_FAILS cfg_ex
      \<le> failCount ''locations'' (initial_state\<lparr>locFailCount := 2\<rparr>) + 1"
    by (simp add: cfg_ex_def failCount_def)
  note th = retrip_needs_threshold_failures [OF thr trip, of 1000]
  from th have a: "\<forall>ts. int (length ts) < BACKOFF_AFTER_FAILS cfg_ex \<longrightarrow>
          nextTryAt ''locations'' (fails cfg_ex ''locations'' ts (onFail cfg_ex ''locations'' 1000 (initial_state\<lparr>locFailCount := 2\<rparr>))) = 1000 + BACKOFF_WINDOW_MS cfg_ex
          \<and> failCount ''locations'' (fails cfg_ex ''locations'' ts (onFail cfg_ex ''locations'' 1000 (initial_state\<lparr>locFailCount := 2\<rparr>))) = int (length ts)"
    by blast
  from th have b: "\<forall>ts t. int (length ts) + 1 = BACKOFF_AFTER_FAILS cfg_ex \<longrightarrow>
          nextTryAt ''locations'' (fails cfg_ex ''locations'' (ts @ [t]) (onFail cfg_ex ''locations'' 1000 (initial_state\<lparr>locFailCount := 2\<rparr>))) = t + BACKOFF_WINDOW_MS cfg_ex
          \<and> failCount ''locations'' (fails cfg_ex ''locations'' (ts @ [t]) (onFail cfg_ex ''locations'' 1000 (initial_state\<lparr>locFailCount := 2\<rparr>))) = 0"
    by blast
  from th have c: "2 \<le> BACKOFF_AFTER_FAILS cfg_ex \<longrightarrow>
          (\<forall>t. nextTryAt ''locations'' (onFail cfg_ex ''locations'' t (onFail cfg_ex ''locations'' 1000 (initial_state\<lparr>locFailCount := 2\<rparr>))) = 1000 + BACKOFF_WINDOW_MS cfg_ex
              \<and> failCount ''locations'' (onFail cfg_ex ''locations'' t (onFail cfg_ex ''locations'' 1000 (initial_state\<lparr>locFailCount := 2\<rparr>))) = 1)"
    by blast
  have a': "int (length [40000, 41000::int]) < BACKOFF_AFTER_FAILS cfg_ex" by (simp add: cfg_ex_def)
  have b': "int (length [40000, 41000::int]) + 1 = BACKOFF_AFTER_FAILS cfg_ex" by (simp add: cfg_ex_def)
  have c': "2 \<le> BACKOFF_AFTER_FAILS cfg_ex" by (simp add: cfg_ex_def)
  show ?thesis
    using thr trip a [rule_format, OF a'] b [rule_format, OF b', of 42000] c [rule_format, OF c', of 40000]
    by (simp add: failCount_def nextTryAt_def cfg_ex_def)
qed

subsection \<open>What a handler does to the state\<close>

lemmas resp_defs = res_def res_status_def res_setHeader_def res_type_def res_json_def res_send_def

lemma locations_fallback_state:
  "fst (locations_fallback cfg inp st) =
     (if \<not> truthy (data (cacheLocations st)) \<and> DEMO_CONFIGURED cfg
      then st\<lparr>lastLocationsFallback := True\<rparr> else st)"
  by (simp add: locations_fallback_def Let_def split: sum.splits)

lemma states_fallback_state:
  "fst (states_fallback cfg inp st) =
     (if \<not> truthy (data (cacheStates st)) \<and> DEMO_CONFIGURED cfg
      then st\<lparr>lastStatesFallback := True\<rparr> else st)"
  by (simp add: states_fallback_def Let_def split: sum.splits js_value.splits)

lemma locations_handler_calls:
  "snd (snd (locations_handler cfg inp st)) =
     (if url_truthy (toAbs cfg (LOCATIONS_URL cfg)) \<and> \<not> now_gate inp < locNextTryAt st
      then [toAbs cfg (LOCATIONS_URL cfg)] else [])"
  by (simp add: locations_handler_def locations_begin_def shouldBackoff_def Let_def
      split: prod.splits)

lemma states_handler_calls:
  "snd (snd (states_handler cfg inp st)) =
     (if url_truthy (toAbs cfg (STATES_URL cfg)) \<and> \<not> now_gate inp < statesNextTryAt st
      then [toAbs cfg (STATES_URL cfg)] else [])"
  by (simp add: states_handler_def states_begin_def shouldBackoff_def Let_def
      split: prod.splits)

lemma locations_handler_skipped:
  "snd (snd (locations_handler cfg inp st)) = [] \<Longrightarrow>
   locations_handler cfg inp st =
     (fst (locations_fallback cfg inp (st\<lparr>lastLocationsFallback := False\<rparr>)),
      snd (locations_fallback cfg inp (st\<lparr>lastLocationsFallback := False\<rparr>)), [])"
  by (simp add: locations_handler_def locations_begin_def shouldBackoff_def Let_def
      split: prod.splits if_splits)

lemma states_handler_skipped:
  "snd (snd (states_handler cfg inp st)) = [] \<Longrightarrow>
   states_handler cfg inp st =
     (fst (states_fallback cfg inp (st\<lparr>lastStatesFallback := False\<rparr>)),
      snd (states_fallback cfg inp (st\<lparr>lastStatesFallback := False\<rparr>)), [])"
  by (simp add: states_handler_def states_begin_def shouldBackoff_def Let_def
      split: prod.splits if_splits)

lemma locations_handler_fetched:
  "snd (snd (locations_handler cfg inp st)) \<noteq> [] \<Longrightarrow>
   locations_handler cfg inp st =
     (fst (locations_resume cfg inp (now_request inp)
             (tryRemote cfg (fetch inp 0) (toAbs cfg (LOCATIONS_URL cfg)) ''locations'')
             (st\<lparr>lastLocationsFallback := False\<rparr>)),
      snd (locations_resume cfg inp (now_request inp)
             (tryRemote cfg (fetch inp 0) (toAbs cfg (LOCATIONS_URL cfg)) ''locations'')
             (st\<lparr>lastLocationsFallback := False\<rparr>)),
      [toAbs cfg (LOCATIONS_URL cfg)])"
  by (simp add: locations_handler_def locations_begin_def shouldBackoff_def Let_def
      split: prod.splits if_splits)

lemma states_handler_fetched:
  "snd (snd (states_handler cfg inp st)) \<noteq> [] \<Longrightarrow>
   states_handler cfg inp st =
     (fst (states_resume cfg inp (now_request inp)
             (tryRemote cfg (fetch inp 0) (toAbs cfg (STATES_URL cfg)) ''states'')
             (st\<lparr>lastStatesFallback := False\<rparr>)),
      snd (states_resume cfg inp (now_request inp)
             (tryRemote cfg (fetch inp 0) (toAbs cfg (STATES_URL cfg)) ''states'')
             (st\<lparr>lastStatesFallback := False\<rparr>)),
      [toAbs cfg (STATES_URL cfg)])"
  by (simp add: states_handler_def states_begin_def shouldBackoff_def Let_def
      split: prod.splits if_splits)

text \<open>What a resumed handler does to the state.\<close>

lemma locations_resume_state:
  "fst (locations_resume cfg inp now out st) =
     (if ok out then
        (onSuccess ''locations'' st)\<lparr>cacheLocations :=
           \<lparr>data = (if o_contentType out = JStr ''application/json'' then o_data out else o_text out),
            contentType = o_contentType out, cache_at = now\<rparr>\<rparr>
      else fst (locations_fallback cfg inp (onFail cfg ''locations'' (now_fail inp) st)))"
  by (simp add: locations_resume_def Let_def)

lemma states_resume_state:
  "fst (states_resume cfg inp now out st) =
     (if ok out then
        (onSuccess ''states'' st)\<lparr>cacheStates :=
           \<lparr>data = (if o_contentType out = JStr ''application/json'' then o_data out else o_text out),
            contentType = o_contentType out, cache_at = now\<rparr>\<rparr>
      else fst (states_fallback cfg inp (onFail cfg ''states'' (now_fail inp) st)))"
  by (simp add: states_resume_def Let_def)

text \<open>Each resource handler leaves the other resource's variables alone.\<close>

lemma locations_handler_frame:
  "lastStatesFallback (fst (locations_handler cfg inp st)) = lastStatesFallback st
   \<and> cacheStates (fst (locations_handler cfg inp st)) = cacheStates st
   \<and> statesFailCount (fst (locations_handler cfg inp st)) = statesFailCount st
   \<and> statesNextTryAt (fst (locations_handler cfg inp st)) = statesNextTryAt st"
proof (cases "snd (snd (locations_handler cfg inp st)) = []")
  case True
  show ?thesis
    by (simp add: locations_handler_skipped [OF True] locations_fallback_state)
next
  case False
  show ?thesis
    by (simp add: locations_handler_fetched [OF False] locations_resume_state
        locations_fallback_state onSuccess_def onFail_def Let_def)
qed

lemma states_handler_frame:
  "lastLocationsFallback (fst (states_handler cfg inp st)) = lastLocationsFallback st
   \<and> cacheLocations (fst (states_handler cfg inp st)) = cacheLocations st
   \<and> locFailCount (fst (states_handler cfg inp st)) = locFailCount st
   \<and> locNextTryAt (fst (states_handler cfg inp st)) = locNextTryAt st"
proof (cases "snd (snd (states_handler cfg inp st)) = []")
  case True
  show ?thesis
    by (simp add: states_handler_skipped [OF True] states_fallback_state)
next
  case False
  show ?thesis
    by (simp add: states_handler_fetched [OF False] states_resume_state
        states_fallback_state onSuccess_def onFail_def Let_def)
qed

lemma config_handler_state: "fst (config_handler cfg inp st) = st"
  by (simp add: config_handler_def split: sum.splits)

lemma health_handler_state: "fst (health_handler cfg inp st) = st"
  by (simp add: health_handler_def Let_def split: prod.splits)

lemma proxy_handler_state: "fst (proxy_handler cfg inp p st) = st"
  by (simp add: proxy_handler_def Let_def)

subsection \<open>Requests inside a backoff window\<close>

lemma handle_keeps_locNextTryAt:
  "rq \<noteq> GetLocations \<Longrightarrow> locNextTryAt (fst (handle cfg rq inp st)) = locNextTryAt st"
  by (cases rq)
    (simp_all add: states_handler_frame config_handler_state health_handler_state
      proxy_handler_state)

lemma handle_keeps_statesNextTryAt:
  "rq \<noteq> GetStates \<Longrightarrow> statesNextTryAt (fst (handle cfg rq inp st)) = statesNextTryAt st"
  by (cases rq)
    (simp_all add: locations_handler_frame config_handler_state health_handler_state
      proxy_handler_state)

lemma locations_handler_gated:
  "now_gate inp < locNextTryAt st \<Longrightarrow>
   snd (snd (locations_handler cfg inp st)) = []
   \<and> locNextTryAt (fst (locations_handler cfg inp st)) = locNextTryAt st"
proof -
  assume g: "now_gate inp < locNextTryAt st"
  have c: "snd (snd (locations_handler cfg inp st)) = []"
    using g by (simp add: locations_handler_calls)
  show ?thesis
    by (simp add: c locations_handler_skipped [OF c] locations_fallback_state)
qed

lemma states_handler_gated:
  "now_gate inp < statesNextTryAt st \<Longrightarrow>
   snd (snd (states_handler cfg inp st)) = []
   \<and> statesNextTryAt (fst (states_handler cfg inp st)) = statesNextTryAt st"
proof -
  assume g: "now_gate inp < statesNextTryAt st"
  have c: "snd (snd (states_handler cfg inp st)) = []"
    using g by (simp add: states_handler_calls)
  show ?thesis
    by (simp add: c states_handler_skipped [OF c] states_fallback_state)
qed

lemma run_Cons:
  "run cfg ((rq, inp) # rest) st =
     (fst (run cfg rest (fst (handle cfg rq inp st))),
      snd (handle cfg rq inp st) # snd (run cfg rest (fst (handle cfg rq inp st))))"
  by (simp split: prod.splits)

lemma length_run: "length (snd (run cfg reqs st)) = length reqs"
proof (induction reqs arbitrary: st)
  case Nil
  then show ?case by simp
next
  case (Cons x reqs)
  then show ?case by (cases x) (simp only: run_Cons snd_conv list.size)
qed

lemma run_inside_locations_window:
  "(\<forall>(rq, inp) \<in> set reqs. rq = GetLocations \<longrightarrow> now_gate inp < locNextTryAt st) \<Longrightarrow>
   locNextTryAt (fst (run cfg reqs st)) = locNextTryAt st
   \<and> (\<forall>((rq, inp), (r, calls)) \<in> set (zip reqs (snd (run cfg reqs st))).
         rq = GetLocations \<longrightarrow> calls = [])"
proof (induction reqs arbitrary: st)
  case Nil
  then show ?case by simp
next
  case (Cons x reqs)
  obtain rq inp where x: "x = (rq, inp)" by (cases x)
  obtain st1 r calls where h: "handle cfg rq inp st = (st1, r, calls)"
    by (cases "handle cfg rq inp st") auto
  have keep: "locNextTryAt st1 = locNextTryAt st" and quiet: "rq = GetLocations \<longrightarrow> calls = []"
  proof -
    show "locNextTryAt st1 = locNextTryAt st"
    proof (cases "rq = GetLocations")
      case True
      then have "now_gate inp < locNextTryAt st" using Cons.prems x by simp
      from locations_handler_gated [OF this, of cfg] show ?thesis using h True by simp
    next
      case False
      from handle_keeps_locNextTryAt [OF this, of cfg inp st] show ?thesis using h by simp
    qed
    show "rq = GetLocations \<longrightarrow> calls = []"
    proof
      assume l: "rq = GetLocations"
      then have "now_gate inp < locNextTryAt st" using Cons.prems x by simp
      from locations_handler_gated [OF this, of cfg] show "calls = []" using h l by simp
    qed
  qed
  have "\<forall>(rq, inp) \<in> set reqs. rq = GetLocations \<longrightarrow> now_gate inp < locNextTryAt st1"
    using Cons.prems keep by auto
  from Cons.IH [OF this] show ?case
    using x h keep quiet by (auto split: prod.splits)
qed

lemma run_inside_states_window:
  "(\<forall>(rq, inp) \<in> set reqs. rq = GetStates \<longrightarrow> now_gate inp < statesNextTryAt st) \<Longrightarrow>
   statesNextTryAt (fst (run cfg reqs st)) = statesNextTryAt st
   \<and> (\<forall>((rq, inp), (r, calls)) \<in> set (zip reqs (snd (run cfg reqs st))).
         rq = GetStates \<longrightarrow> calls = [])"
proof (induction reqs arbitrary: st)
  case Nil
  then show ?case by simp
next
  case (Cons x reqs)
  obtain rq inp where x: "x = (rq, inp)" by (cases x)
  obtain st1 r calls where h: "handle cfg rq inp st = (st1, r, calls)"
    by (cases "handle cfg rq inp st") auto
  have keep: "statesNextTryAt st1 = statesNextTryAt st" and quiet: "rq = GetStates \<longrightarrow> calls = []"
  proof -
    show "statesNextTryAt st1 = statesNextTryAt st"
    proof (cases "rq = GetStates")
      case True
      then have "now_gate inp < statesNextTryAt st" using Cons.prems x by simp
      from states_handler_gated [OF this, of cfg] show ?thesis using h True by simp
    next
      case False
      from handle_keeps_statesNextTryAt [OF this, of cfg inp st] show ?thesis using h by simp
    qed
    show "rq = GetStates \<longrightarrow> calls = []"
    proof
      assume l: "rq = GetStates"
      then have "now_gate inp < statesNextTryAt st" using Cons.prems x by simp
      from states_handler_gated [OF this, of cfg] show "calls = []" using h l by simp
    qed
  qed
  have "\<forall>(rq, inp) \<in> set reqs. rq = GetStates \<longrightarrow> now_gate inp < statesNextTryAt st1"
    using Cons.prems keep by auto
  from Cons.IH [OF this] show ?case
    using x h keep quiet by (auto split: prod.splits)
qed

lemma toAbs_cfg_ex:
  "toAbs cfg_ex (LOCATIONS_URL cfg_ex) = Some ''http://up/l''
   \<and> toAbs cfg_ex (STATES_URL cfg_ex) = Some ''http://up/s''"
  by code_simp

lemma toAbs_empty: "toAbs cfg [] = None"
  by (simp add: toAbs_def)

lemma zip_run_nth:
  "i < length reqs \<Longrightarrow> (reqs ! i, snd (run cfg reqs st) ! i) \<in> set (zip reqs (snd (run cfg reqs st)))"
  by (metis length_run nth_zip length_zip min.idem nth_mem)

subsection \<open>The gate in front of a live call\<close>

text \<open>
  Claim C1. A request to \<open>/api/locations\<close> or \<open>/api/states\<close> hands at most one URL to
  \<open>tryRemote\<close>. It hands none when the clock reading of the backoff test is strictly
  before the resource's deadline, and none when \<open>toAbs\<close> resolves no URL for the
  resource. So in any sequence of requests, served one after the other, in which every
  request for a resource is tested before that resource's deadline, the deadline stays
  as it is and no request for the resource makes a live call. (The unthrottled probes of
  \<open>/health\<close> are calls of that endpoint, not of a resolution.)
\<close>

theorem live_call_gate:
  "length (snd (snd (locations_handler cfg inp st))) \<le> 1
   \<and> length (snd (snd (states_handler cfg inp st))) \<le> 1
   \<and> (now_gate inp < locNextTryAt st \<longrightarrow> snd (snd (locations_handler cfg inp st)) = [])
   \<and> (now_gate inp < statesNextTryAt st \<longrightarrow> snd (snd (states_handler cfg inp st)) = [])
   \<and> (toAbs cfg (LOCATIONS_URL cfg) = None \<longrightarrow> snd (snd (locations_handler cfg inp st)) = [])
   \<and> (toAbs cfg (STATES_URL cfg) = None \<longrightarrow> snd (snd (states_handler cfg inp st)) = [])
   \<and> ((\<forall>(rq, i) \<in> set reqs. rq = GetLocations \<longrightarrow> now_gate i < locNextTryAt st) \<longrightarrow>
        locNextTryAt (fst (run cfg reqs st)) = locNextTryAt st
        \<and> (\<forall>((rq, i), (r, calls)) \<in> set (zip reqs (snd (run cfg reqs st))).
              rq = GetLocations \<longrightarrow> calls = []))
   \<and> ((\<forall>(rq, i) \<in> set reqs. rq = GetStates \<longrightarrow> now_gate i < statesNextTryAt st) \<longrightarrow>
        statesNextTryAt (fst (run cfg reqs st)) = statesNextTryAt st
        \<and> (\<forall>((rq, i), (r, calls)) \<in> set (zip reqs (snd (run cfg reqs st))).
              rq = GetStates \<longrightarrow> calls = []))"
proof -
  have one: "length (snd (snd (locations_handler cfg inp st))) \<le> 1"
    "length (snd (snd (states_handler cfg inp st))) \<le> 1"
    by (simp_all add: locations_handler_calls states_handler_calls)
  have gate: "now_gate inp < locNextTryAt st \<longrightarrow> snd (snd (locations_handler cfg inp st)) = []"
    "now_gate inp < statesNextTryAt st \<longrightarrow> snd (snd (states_handler cfg inp st)) = []"
    by (simp_all add: locations_handler_calls states_handler_calls)
  have nourl: "toAbs cfg (LOCATIONS_URL cfg) = None \<longrightarrow> snd (snd (locations_handler cfg inp st)) = []"
    "toAbs cfg (STATES_URL cfg) = None \<longrightarrow> snd (snd (states_handler cfg inp st)) = []"
    by (simp_all add: locations_handler_calls states_handler_calls url_truthy_def)
  show ?thesis
    using one gate nourl run_inside_locations_window [of reqs st cfg]
      run_inside_states_window [of reqs st cfg]
    by blast
qed

theorem live_call_gate_witness:
  "now_gate inp_ex < locNextTryAt st_backoff
   \<and> now_gate inp_ex < statesNextTryAt st_backoff
   \<and> snd (snd (locations_handler cfg_ex inp_ex st_backoff)) = []
   \<and> snd (snd (states_handler cfg_ex inp_ex st_backoff)) = []
   \<and> toAbs cfg_local (LOCATIONS_URL cfg_local) = None
   \<and> toAbs cfg_local (STATES_URL cfg_local) = None
   \<and> snd (snd (locations_handler cfg_local inp_ex initial_state)) = []
   \<and> snd (snd (states_handler cfg_local inp_ex initial_state)) = []
   \<and> locNextTryAt (fst (run cfg_ex reqs_ex st_backoff)) = 31000
   \<and> statesNextTryAt (fst (run cfg_ex reqs_ex st_backoff)) = 31000
   \<and> reqs_ex ! 2 = (GetLocations, inp_ex\<lparr>now_gate := 30999\<rparr>)
   \<and> snd (snd (run cfg_ex reqs_ex st_backoff) ! 2) = []
   \<and> reqs_ex ! 1 = (GetStates, inp_ex)
   \<and> snd (snd (run cfg_ex reqs_ex st_backoff) ! 1) = []"
proof -
  have g: "now_gate inp_ex < locNextTryAt st_backoff" "now_gate inp_ex < statesNextTryAt st_backoff"
    by (simp_all add: inp_ex_def st_backoff_def)
  have u: "toAbs cfg_local (LOCATIONS_URL cfg_local) = None"
    "toAbs cfg_local (STATES_URL cfg_local) = None"
    by (simp_all add: cfg_local_def toAbs_empty)
  have hl: "\<forall>(rq, i) \<in> set reqs_ex. rq = GetLocations \<longrightarrow> now_gate i < locNextTryAt st_backoff"
    by (simp add: reqs_ex_def inp_ex_def st_backoff_def)
  have hs: "\<forall>(rq, i) \<in> set reqs_ex. rq = GetStates \<longrightarrow> now_gate i < statesNextTryAt st_backoff"
    by (simp add: reqs_ex_def inp_ex_def st_backoff_def)
  note a = live_call_gate [of cfg_ex inp_ex st_backoff reqs_ex]
  note b = live_call_gate [of cfg_local inp_ex initial_state reqs_ex]
  have m2: "(reqs_ex ! 2, snd (run cfg_ex reqs_ex st_backoff) ! 2)
      \<in> set (zip reqs_ex (snd (run cfg_ex reqs_ex st_backoff)))"
    by (rule zip_run_nth) (simp add: reqs_ex_def)
  have m1: "(reqs_ex ! 1, snd (run cfg_ex reqs_ex st_backoff) ! 1)
      \<in> set (zip reqs_ex (snd (run cfg_ex reqs_ex st_backoff)))"
    by (rule zip_run_nth) (simp add: reqs_ex_def)
  have r2: "reqs_ex ! 2 = (GetLocations, inp_ex\<lparr>now_gate := 30999\<rparr>)"
    and r1: "reqs_ex ! 1 = (GetStates, inp_ex)"
    by (simp_all add: reqs_ex_def)
  from a hl have wl: "locNextTryAt (fst (run cfg_ex reqs_ex st_backoff)) = locNextTryAt st_backoff"
    and cl: "\<forall>((rq, i), (r, calls)) \<in> set (zip reqs_ex (snd (run cfg_ex reqs_ex st_backoff))).
              rq = GetLocations \<longrightarrow> calls = []"
    by blast+
  from a hs have ws: "statesNextTryAt (fst (run cfg_ex reqs_ex st_backoff)) = statesNextTryAt st_backoff"
    and cs: "\<forall>((rq, i), (r, calls)) \<in> set (zip reqs_ex (snd (run cfg_ex reqs_ex st_backoff))).
              rq = GetStates \<longrightarrow> calls = []"
    by blast+
  have c2: "snd (snd (run cfg_ex reqs_ex st_backoff) ! 2) = []"
    using bspec [OF cl m2] r2 by (simp add: case_prod_beta)
  have c1: "snd (snd (run cfg_ex reqs_ex st_backoff) ! 1) = []"
    using bspec [OF cs m1] r1 by (simp add: case_prod_beta)
  have d: "locNextTryAt st_backoff = 31000" "statesNextTryAt st_backoff = 31000"
    by (simp_all add: st_backoff_def)
  show ?thesis
    using g u a b wl ws c1 c2 r1 r2 d by simp
qed

subsection \<open>Who writes the caches\<close>

lemma tryRemote_inp_ok:
  "tryRemote cfg_ex (fetch inp_ok 0) u kind =
     \<lparr>ok = True, status = None, error = None, o_data = JArr [JNum 1], o_text = JUndefined,
      o_contentType = JStr ''application/json''\<rparr>"
proof -
  have "str_includes (toLowerCase ''application/json; charset=utf-8'') ''application/json''"
    by code_simp
  then show ?thesis
    by (simp add: tryRemote_def fetchWithTimeout_def inp_ok_def inp_ex_def r_ok_def Let_def)
qed

lemma onFail_caches:
  "cacheLocations (onFail cfg kind t st) = cacheLocations st
   \<and> cacheStates (onFail cfg kind t st) = cacheStates st"
  by (simp add: onFail_def Let_def)

lemma onSuccess_caches:
  "cacheLocations (onSuccess kind st) = cacheLocations st
   \<and> cacheStates (onSuccess kind st) = cacheStates st"
  by (simp add: onSuccess_def)

lemma fallback_caches:
  "cacheLocations (fst (locations_fallback cfg inp st)) = cacheLocations st
   \<and> cacheStates (fst (locations_fallback cfg inp st)) = cacheStates st
   \<and> cacheLocations (fst (states_fallback cfg inp st)) = cacheLocations st
   \<and> cacheStates (fst (states_fallback cfg inp st)) = cacheStates st"
  by (simp add: locations_fallback_state states_fallback_state)

lemma resume_failed_caches:
  "\<not> ok out \<Longrightarrow>
   cacheLocations (fst (locations_resume cfg inp now out st)) = cacheLocations st
   \<and> cacheStates (fst (states_resume cfg inp now out st)) = cacheStates st"
  by (simp add: locations_resume_state states_resume_state fallback_caches onFail_caches)

lemma locations_begin_eq:
  "locations_begin cfg inp st =
     (if url_truthy (toAbs cfg (LOCATIONS_URL cfg)) \<and> \<not> now_gate inp < locNextTryAt st
      then Await (toAbs cfg (LOCATIONS_URL cfg)) (st\<lparr>lastLocationsFallback := False\<rparr>)
      else Done (fst (locations_fallback cfg inp (st\<lparr>lastLocationsFallback := False\<rparr>)))
             (snd (locations_fallback cfg inp (st\<lparr>lastLocationsFallback := False\<rparr>))))"
  by (simp add: locations_begin_def shouldBackoff_def Let_def split: prod.splits)

lemma states_begin_eq:
  "states_begin cfg inp st =
     (if url_truthy (toAbs cfg (STATES_URL cfg)) \<and> \<not> now_gate inp < statesNextTryAt st
      then Await (toAbs cfg (STATES_URL cfg)) (st\<lparr>lastStatesFallback := False\<rparr>)
      else Done (fst (states_fallback cfg inp (st\<lparr>lastStatesFallback := False\<rparr>)))
             (snd (states_fallback cfg inp (st\<lparr>lastStatesFallback := False\<rparr>))))"
  by (simp add: states_begin_def shouldBackoff_def Let_def split: prod.splits)

lemma begin_caches:
  "(case locations_begin cfg inp st of
      Await u st1 \<Rightarrow> cacheLocations st1 = cacheLocations st
    | Done st1 r \<Rightarrow> cacheLocations st1 = cacheLocations st)
   \<and> (case states_begin cfg inp st of
      Await u st1 \<Rightarrow> cacheStates st1 = cacheStates st
    | Done st1 r \<Rightarrow> cacheStates st1 = cacheStates st)"
  by (simp add: locations_begin_eq states_begin_eq fallback_caches)

lemma locations_handler_cache:
  "cacheLocations (fst (locations_handler cfg inp st)) \<noteq> cacheLocations st \<Longrightarrow>
   snd (snd (locations_handler cfg inp st)) = [toAbs cfg (LOCATIONS_URL cfg)]
   \<and> ok (tryRemote cfg (fetch inp 0) (toAbs cfg (LOCATIONS_URL cfg)) ''locations'')"
proof -
  assume ch: "cacheLocations (fst (locations_handler cfg inp st)) \<noteq> cacheLocations st"
  have ne: "snd (snd (locations_handler cfg inp st)) \<noteq> []"
  proof
    assume e: "snd (snd (locations_handler cfg inp st)) = []"
    from ch show False
      by (simp add: locations_handler_skipped [OF e] locations_fallback_state)
  qed
  have "ok (tryRemote cfg (fetch inp 0) (toAbs cfg (LOCATIONS_URL cfg)) ''locations'')"
  proof (rule ccontr)
    assume n: "\<not> ok (tryRemote cfg (fetch inp 0) (toAbs cfg (LOCATIONS_URL cfg)) ''locations'')"
    from ch show False
      using resume_failed_caches [OF n, of cfg inp "now_request inp" "st\<lparr>lastLocationsFallback := False\<rparr>"]
      by (simp add: locations_handler_fetched [OF ne])
  qed
  then show ?thesis using ne by (simp add: locations_handler_calls split: if_splits)
qed

lemma states_handler_cache:
  "cacheStates (fst (states_handler cfg inp st)) \<noteq> cacheStates st \<Longrightarrow>
   snd (snd (states_handler cfg inp st)) = [toAbs cfg (STATES_URL cfg)]
   \<and> ok (tryRemote cfg (fetch inp 0) (toAbs cfg (STATES_URL cfg)) ''states'')"
proof -
  assume ch: "cacheStates (fst (states_handler cfg inp st)) \<noteq> cacheStates st"
  have ne: "snd (snd (states_handler cfg inp st)) \<noteq> []"
  proof
    assume e: "snd (snd (states_handler cfg inp st)) = []"
    from ch show False
      by (simp add: states_handler_skipped [OF e] states_fallback_state)
  qed
  have "ok (tryRemote cfg (fetch inp 0) (toAbs cfg (STATES_URL cfg)) ''states'')"
  proof (rule ccontr)
    assume n: "\<not> ok (tryRemote cfg (fetch inp 0) (toAbs cfg (STATES_URL cfg)) ''states'')"
    from ch show False
      using resume_failed_caches [OF n, of cfg inp "now_request inp" "st\<lparr>lastStatesFallback := False\<rparr>"]
      by (simp add: states_handler_fetched [OF ne])
  qed
  then show ?thesis using ne by (simp add: states_handler_calls split: if_splits)
qed

lemma handle_other_state:
  "rq \<noteq> GetLocations \<Longrightarrow> rq \<noteq> GetStates \<Longrightarrow> fst (handle cfg rq inp st) = st"
  by (cases rq) (simp_all add: config_handler_state health_handler_state proxy_handler_state)

lemma handle_keeps_cacheLocations:
  "rq \<noteq> GetLocations \<Longrightarrow> cacheLocations (fst (handle cfg rq inp st)) = cacheLocations st"
  by (cases rq)
    (simp_all add: states_handler_frame config_handler_state health_handler_state
      proxy_handler_state)

lemma handle_keeps_cacheStates:
  "rq \<noteq> GetStates \<Longrightarrow> cacheStates (fst (handle cfg rq inp st)) = cacheStates st"
  by (cases rq)
    (simp_all add: locations_handler_frame config_handler_state health_handler_state
      proxy_handler_state)

lemma run_changes_cacheLocations:
  "cacheLocations (fst (run cfg reqs st)) \<noteq> cacheLocations st \<Longrightarrow>
   \<exists>pre i post. reqs = pre @ (GetLocations, i) # post
     \<and> snd (snd (locations_handler cfg i (fst (run cfg pre st)))) = [toAbs cfg (LOCATIONS_URL cfg)]
     \<and> ok (tryRemote cfg (fetch i 0) (toAbs cfg (LOCATIONS_URL cfg)) ''locations'')"
proof (induction reqs arbitrary: st)
  case Nil
  then show ?case by simp
next
  case (Cons x reqs)
  obtain rq inp where x: "x = (rq, inp)" by (cases x)
  let ?st1 = "fst (handle cfg rq inp st)"
  show ?case
  proof (cases "cacheLocations ?st1 = cacheLocations st")
    case True
    then have "cacheLocations (fst (run cfg reqs ?st1)) \<noteq> cacheLocations ?st1"
      using Cons.prems x by (simp add: run_Cons del: run.simps)
    from Cons.IH [OF this] obtain pre i post where
      p: "reqs = pre @ (GetLocations, i) # post"
      "snd (snd (locations_handler cfg i (fst (run cfg pre ?st1)))) = [toAbs cfg (LOCATIONS_URL cfg)]"
      "ok (tryRemote cfg (fetch i 0) (toAbs cfg (LOCATIONS_URL cfg)) ''locations'')"
      by blast
    have "x # reqs = (x # pre) @ (GetLocations, i) # post" using p(1) by simp
    moreover have "fst (run cfg (x # pre) st) = fst (run cfg pre ?st1)"
      using x by (simp add: run_Cons del: run.simps)
    ultimately show ?thesis using p(2,3) by metis
  next
    case False
    then have l: "rq = GetLocations" using handle_keeps_cacheLocations by blast
    from False l have "cacheLocations (fst (locations_handler cfg inp st)) \<noteq> cacheLocations st"
      by simp
    from locations_handler_cache [OF this] have
      "snd (snd (locations_handler cfg inp (fst (run cfg [] st)))) = [toAbs cfg (LOCATIONS_URL cfg)]"
      "ok (tryRemote cfg (fetch inp 0) (toAbs cfg (LOCATIONS_URL cfg)) ''locations'')"
      by simp_all
    moreover have "x # reqs = [] @ (GetLocations, inp) # reqs" using x l by simp
    ultimately show ?thesis by blast
  qed
qed

lemma run_changes_cacheStates:
  "cacheStates (fst (run cfg reqs st)) \<noteq> cacheStates st \<Longrightarrow>
   \<exists>pre i post. reqs = pre @ (GetStates, i) # post
     \<and> snd (snd (states_handler cfg i (fst (run cfg pre st)))) = [toAbs cfg (STATES_URL cfg)]
     \<and> ok (tryRemote cfg (fetch i 0) (toAbs cfg (STATES_URL cfg)) ''states'')"
proof (induction reqs arbitrary: st)
  case Nil
  then show ?case by simp
next
  case (Cons x reqs)
  obtain rq inp where x: "x = (rq, inp)" by (cases x)
  let ?st1 = "fst (handle cfg rq inp st)"
  show ?case
  proof (cases "cacheStates ?st1 = cacheStates st")
    case True
    then have "cacheStates (fst (run cfg reqs ?st1)) \<noteq> cacheStates ?st1"
      using Cons.prems x by (simp add: run_Cons del: run.simps)
    from Cons.IH [OF this] obtain pre i post where
      p: "reqs = pre @ (GetStates, i) # post"
      "snd (snd (states_handler cfg i (fst (run cfg pre ?st1)))) = [toAbs cfg (STATES_URL cfg)]"
      "ok (tryRemote cfg (fetch i 0) (toAbs cfg (STATES_URL cfg)) ''states'')"
      by blast
    have "x # reqs = (x # pre) @ (GetStates, i) # post" using p(1) by simp
    moreover have "fst (run cfg (x # pre) st) = fst (run cfg pre ?st1)"
      using x by (simp add: run_Cons del: run.simps)
    ultimately show ?thesis using p(2,3) by metis
  next
    case False
    then have l: "rq = GetStates" using handle_keeps_cacheStates by blast
    from False l have "cacheStates (fst (states_handler cfg inp st)) \<noteq> cacheStates st"
      by simp
    from states_handler_cache [OF this] have
      "snd (snd (states_handler cfg inp (fst (run cfg [] st)))) = [toAbs cfg (STATES_URL cfg)]"
      "ok (tryRemote cfg (fetch inp 0) (toAbs cfg (STATES_URL cfg)) ''states'')"
      by simp_all
    moreover have "x # reqs = [] @ (GetStates, inp) # reqs" using x l by simp
    ultimately show ?thesis by blast
  qed
qed

text \<open>
  Claim C5. The cache of a resource is written in one place only: the handler of that
  resource, after a live fetch that succeeded. \<open>onFail\<close>, \<open>onSuccess\<close>, the fallback code
  (cache hit, demo data, the 500 answer), the code before the fetch, and a resumed
  handler whose fetch failed all leave both caches as they are; each resource handler
  leaves the other resource's cache alone; \<open>/config\<close>, \<open>/health\<close> and \<open>/api/proxy\<close>
  leave the whole state alone. Hence, over any sequence of requests, a cache that differs
  at the end was written by a request of its own resource that made the live call and got
  a successful outcome.
\<close>

theorem cache_written_only_by_live_success:
  "cacheLocations (onFail cfg kind t st) = cacheLocations st
   \<and> cacheStates (onFail cfg kind t st) = cacheStates st
   \<and> cacheLocations (onSuccess kind st) = cacheLocations st
   \<and> cacheStates (onSuccess kind st) = cacheStates st
   \<and> cacheLocations (fst (locations_fallback cfg inp st)) = cacheLocations st
   \<and> cacheStates (fst (states_fallback cfg inp st)) = cacheStates st
   \<and> (case locations_begin cfg inp st of
         Await u st1 \<Rightarrow> cacheLocations st1 = cacheLocations st
       | Done st1 r \<Rightarrow> cacheLocations st1 = cacheLocations st)
   \<and> (case states_begin cfg inp st of
         Await u st1 \<Rightarrow> cacheStates st1 = cacheStates st
       | Done st1 r \<Rightarrow> cacheStates st1 = cacheStates st)
   \<and> (\<not> ok out \<longrightarrow>
        cacheLocations (fst (locations_resume cfg inp now out st)) = cacheLocations st
        \<and> cacheStates (fst (states_resume cfg inp now out st)) = cacheStates st)
   \<and> cacheStates (fst (locations_handler cfg inp st)) = cacheStates st
   \<and> cacheLocations (fst (states_handler cfg inp st)) = cacheLocations st
   \<and> (rq \<noteq> GetLocations \<and> rq \<noteq> GetStates \<longrightarrow> fst (handle cfg rq inp st) = st)
   \<and> (cacheLocations (fst (locations_handler cfg inp st)) \<noteq> cacheLocations st \<longrightarrow>
        snd (snd (locations_handler cfg inp st)) = [toAbs cfg (LOCATIONS_URL cfg)]
        \<and> ok (tryRemote cfg (fetch inp 0) (toAbs cfg (LOCATIONS_URL cfg)) ''locations''))
   \<and> (cacheStates (fst (states_handler cfg inp st)) \<noteq> cacheStates st \<longrightarrow>
        snd (snd (states_handler cfg inp st)) = [toAbs cfg (STATES_URL cfg)]
        \<and> ok (tryRemote cfg (fetch inp 0) (toAbs cfg (STATES_URL cfg)) ''states''))
   \<and> (cacheLocations (fst (run cfg reqs st)) \<noteq> cacheLocations st \<longrightarrow>
        (\<exists>pre i post. reqs = pre @ (GetLocations, i) # post
           \<and> snd (snd (locations_handler cfg i (fst (run cfg pre st))))
               = [toAbs cfg (LOCATIONS_URL cfg)]
           \<and> ok (tryRemote cfg (fetch i 0) (toAbs cfg (LOCATIONS_URL cfg)) ''locations'')))
   \<and> (cacheStates (fst (run cfg reqs st)) \<noteq> cacheStates st \<longrightarrow>
        (\<exists>pre i post. reqs = pre @ (GetStates, i) # post
           \<and> snd (snd (states_handler cfg i (fst (run cfg pre st))))
               = [toAbs cfg (STATES_URL cfg)]
           \<and> ok (tryRemote cfg (fetch i 0) (toAbs cfg (STATES_URL cfg)) ''states'')))"
proof -
  have frame:
    "cacheLocations (onFail cfg kind t st) = cacheLocations st"
    "cacheStates (onFail cfg kind t st) = cacheStates st"
    "cacheLocations (onSuccess kind st) = cacheLocations st"
    "cacheStates (onSuccess kind st) = cacheStates st"
    "cacheLocations (fst (locations_fallback cfg inp st)) = cacheLocations st"
    "cacheStates (fst (states_fallback cfg inp st)) = cacheStates st"
    "cacheStates (fst (locations_handler cfg inp st)) = cacheStates st"
    "cacheLocations (fst (states_handler cfg inp st)) = cacheLocations st"
    by (simp_all add: onFail_caches onSuccess_caches fallback_caches locations_handler_frame
        states_handler_frame)
  have phases:
    "case locations_begin cfg inp st of
       Await u st1 \<Rightarrow> cacheLocations st1 = cacheLocations st
     | Done st1 r \<Rightarrow> cacheLocations st1 = cacheLocations st"
    "case states_begin cfg inp st of
       Await u st1 \<Rightarrow> cacheStates st1 = cacheStates st
     | Done st1 r \<Rightarrow> cacheStates st1 = cacheStates st"
    "\<not> ok out \<longrightarrow>
       cacheLocations (fst (locations_resume cfg inp now out st)) = cacheLocations st
       \<and> cacheStates (fst (states_resume cfg inp now out st)) = cacheStates st"
    using begin_caches resume_failed_caches by blast+
  have others: "rq \<noteq> GetLocations \<and> rq \<noteq> GetStates \<longrightarrow> fst (handle cfg rq inp st) = st"
    using handle_other_state by blast
  show ?thesis
    using frame phases others locations_handler_cache states_handler_cache
      run_changes_cacheLocations run_changes_cacheStates
    by (intro conjI impI) blast+
qed

lemma inp_ok_clock:
  "now_request inp_ok = 1000 \<and> now_gate inp_ok = 1000 \<and> now_fail inp_ok = 4000"
  by (simp add: inp_ok_def inp_ex_def)

lemma locations_handler_inp_ok:
  "locations_handler cfg_ex inp_ok initial_state =
     (initial_state\<lparr>cacheLocations :=
        \<lparr>data = JArr [JNum 1], contentType = JStr ''application/json'', cache_at = 1000\<rparr>\<rparr>,
      Response (res_json (JArr [JNum 1]) res), [Some ''http://up/l''])"
  by (simp add: locations_handler_def locations_begin_eq toAbs_cfg_ex url_truthy_def
      tryRemote_inp_ok locations_resume_def onSuccess_def initial_state_def inp_ok_clock)


lemma inp_ex_fields:
  "now_request inp_ex = 1000 \<and> now_gate inp_ex = 1000 \<and> now_fail inp_ex = 4000
   \<and> locations_geojson inp_ex = Inr ''{}''
   \<and> locations_geojson inp_ok = Inr ''{}''"
  by (simp add: inp_ok_def inp_ex_def)

lemma tryRemote_inp_ex: "tryRemote cfg (fetch inp_ex 0) u kind = caught ''Error: timeout''"
  by (simp add: tryRemote_def fetchWithTimeout_def inp_ex_def)

lemma locations_handler_live_state:
  assumes "url_truthy (toAbs cfg (LOCATIONS_URL cfg))" "\<not> now_gate inp < locNextTryAt st"
    and "ok (tryRemote cfg (fetch inp 0) (toAbs cfg (LOCATIONS_URL cfg)) ''locations'')"
  shows "cacheLocations (fst (locations_handler cfg inp st)) =
     \<lparr>data = (let out = tryRemote cfg (fetch inp 0) (toAbs cfg (LOCATIONS_URL cfg)) ''locations''
               in if o_contentType out = JStr ''application/json'' then o_data out else o_text out),
      contentType = o_contentType (tryRemote cfg (fetch inp 0) (toAbs cfg (LOCATIONS_URL cfg)) ''locations''),
      cache_at = now_request inp\<rparr>"
proof -
  have ne: "snd (snd (locations_handler cfg inp st)) \<noteq> []"
    using assms(1,2) by (simp add: locations_handler_calls)
  show ?thesis
    using assms(3) by (simp add: locations_handler_fetched [OF ne] locations_resume_state Let_def)
qed

lemma states_handler_live_state:
  assumes "url_truthy (toAbs cfg (STATES_URL cfg))" "\<not> now_gate inp < statesNextTryAt st"
    and "ok (tryRemote cfg (fetch inp 0) (toAbs cfg (STATES_URL cfg)) ''states'')"
  shows "cacheStates (fst (states_handler cfg inp st)) =
     \<lparr>data = (let out = tryRemote cfg (fetch inp 0) (toAbs cfg (STATES_URL cfg)) ''states''
               in if o_contentType out = JStr ''application/json'' then o_data out else o_text out),
      contentType = o_contentType (tryRemote cfg (fetch inp 0) (toAbs cfg (STATES_URL cfg)) ''states''),
      cache_at = now_request inp\<rparr>"
proof -
  have ne: "snd (snd (states_handler cfg inp st)) \<noteq> []"
    using assms(1,2) by (simp add: states_handler_calls)
  show ?thesis
    using assms(3) by (simp add: states_handler_fetched [OF ne] states_resume_state Let_def)
qed

lemma run_reqs_live_caches:
  "cacheLocations (fst (run cfg_ex reqs_live initial_state)) =
     \<lparr>data = JArr [JNum 1], contentType = JStr ''application/json'', cache_at = 1000\<rparr>
   \<and> cacheStates (fst (run cfg_ex reqs_live initial_state)) =
     \<lparr>data = JArr [JNum 1], contentType = JStr ''application/json'', cache_at = 1000\<rparr>"
proof -
  let ?s1 = "fst (locations_handler cfg_ex inp_ok initial_state)"
  have r: "fst (run cfg_ex reqs_live initial_state) = fst (states_handler cfg_ex inp_ok ?s1)"
    by (simp add: reqs_live_def run_Cons health_handler_state del: run.simps(2))
  have l: "cacheLocations ?s1 =
      \<lparr>data = JArr [JNum 1], contentType = JStr ''application/json'', cache_at = 1000\<rparr>"
    by (simp add: locations_handler_inp_ok)
  have g: "statesNextTryAt ?s1 = 0"
    using locations_handler_frame [of cfg_ex inp_ok initial_state] by (simp add: initial_state_def)
  have s: "cacheStates (fst (states_handler cfg_ex inp_ok ?s1)) =
      \<lparr>data = JArr [JNum 1], contentType = JStr ''application/json'', cache_at = 1000\<rparr>"
    by (subst states_handler_live_state)
      (simp_all add: toAbs_cfg_ex url_truthy_def g inp_ok_clock tryRemote_inp_ok)
  show ?thesis
    using l s states_handler_frame [of cfg_ex inp_ok ?s1] by (simp add: r)
qed


lemma initial_caches:
  "cacheLocations initial_state = empty_cache \<and> cacheStates initial_state = empty_cache"
  by (simp add: initial_state_def)

lemma states_handler_inp_ok_cache:
  "cacheStates (fst (states_handler cfg_ex inp_ok initial_state)) =
     \<lparr>data = JArr [JNum 1], contentType = JStr ''application/json'', cache_at = 1000\<rparr>"
  by (subst states_handler_live_state)
    (simp_all add: toAbs_cfg_ex url_truthy_def initial_state_def inp_ok_clock tryRemote_inp_ok)

theorem cache_written_only_by_live_success_witness:
  "\<not> ok (caught ''Error: timeout'')
   \<and> cacheLocations (fst (locations_resume cfg_ex inp_ok 1000 (caught ''Error: timeout'')
        initial_state)) = cacheLocations initial_state
   \<and> cacheStates (fst (states_resume cfg_ex inp_ok 1000 (caught ''Error: timeout'')
        initial_state)) = cacheStates initial_state
   \<and> GetHealth \<noteq> GetLocations \<and> GetHealth \<noteq> GetStates
   \<and> fst (handle cfg_ex GetHealth inp_ok initial_state) = initial_state
   \<and> cacheLocations (fst (locations_handler cfg_ex inp_ok initial_state))
        \<noteq> cacheLocations initial_state
   \<and> snd (snd (locations_handler cfg_ex inp_ok initial_state)) = [Some ''http://up/l'']
   \<and> ok (tryRemote cfg_ex (fetch inp_ok 0) (Some ''http://up/l'') ''locations'')
   \<and> cacheStates (fst (states_handler cfg_ex inp_ok initial_state)) \<noteq> cacheStates initial_state
   \<and> snd (snd (states_handler cfg_ex inp_ok initial_state)) = [Some ''http://up/s'']
   \<and> ok (tryRemote cfg_ex (fetch inp_ok 0) (Some ''http://up/s'') ''states'')
   \<and> cacheLocations (fst (run cfg_ex reqs_live initial_state)) \<noteq> cacheLocations initial_state
   \<and> (\<exists>pre i post. reqs_live = pre @ (GetLocations, i) # post
         \<and> ok (tryRemote cfg_ex (fetch i 0) (Some ''http://up/l'') ''locations''))
   \<and> cacheStates (fst (run cfg_ex reqs_live initial_state)) \<noteq> cacheStates initial_state
   \<and> (\<exists>pre i post. reqs_live = pre @ (GetStates, i) # post
         \<and> ok (tryRemote cfg_ex (fetch i 0) (Some ''http://up/s'') ''states''))"
proof -
  note t = cache_written_only_by_live_success
    [where cfg = cfg_ex and st = initial_state and inp = inp_ok and rq = GetHealth
      and out = "caught ''Error: timeout''" and now = 1000 and reqs = reqs_live
      and kind = "''locations''" and t = 0,
      unfolded toAbs_cfg_ex [THEN conjunct1] toAbs_cfg_ex [THEN conjunct2]]
  have f: "\<not> ok (caught ''Error: timeout'')" by (simp add: caught_def)
  have h: "GetHealth \<noteq> GetLocations \<and> GetHealth \<noteq> GetStates" by simp
  have cl: "cacheLocations (fst (locations_handler cfg_ex inp_ok initial_state))
      \<noteq> cacheLocations initial_state"
    by (simp add: locations_handler_inp_ok initial_caches empty_cache_def)
  have cs: "cacheStates (fst (states_handler cfg_ex inp_ok initial_state))
      \<noteq> cacheStates initial_state"
    by (simp add: states_handler_inp_ok_cache initial_caches empty_cache_def)
  have rl: "cacheLocations (fst (run cfg_ex reqs_live initial_state)) \<noteq> cacheLocations initial_state"
    and rs: "cacheStates (fst (run cfg_ex reqs_live initial_state)) \<noteq> cacheStates initial_state"
    by (simp_all add: run_reqs_live_caches initial_caches empty_cache_def)
  from t f have 1: "cacheLocations (fst (locations_resume cfg_ex inp_ok 1000
        (caught ''Error: timeout'') initial_state)) = cacheLocations initial_state
      \<and> cacheStates (fst (states_resume cfg_ex inp_ok 1000 (caught ''Error: timeout'')
        initial_state)) = cacheStates initial_state"
    by blast
  from t h have 2: "fst (handle cfg_ex GetHealth inp_ok initial_state) = initial_state"
    by blast
  from t cl have 3: "snd (snd (locations_handler cfg_ex inp_ok initial_state)) = [Some ''http://up/l'']
      \<and> ok (tryRemote cfg_ex (fetch inp_ok 0) (Some ''http://up/l'') ''locations'')"
    by blast
  from t cs have 4: "snd (snd (states_handler cfg_ex inp_ok initial_state)) = [Some ''http://up/s'']
      \<and> ok (tryRemote cfg_ex (fetch inp_ok 0) (Some ''http://up/s'') ''states'')"
    by blast
  from t rl have 5: "\<exists>pre i post. reqs_live = pre @ (GetLocations, i) # post
         \<and> ok (tryRemote cfg_ex (fetch i 0) (Some ''http://up/l'') ''locations'')"
    by blast
  from t rs have 6: "\<exists>pre i post. reqs_live = pre @ (GetStates, i) # post
         \<and> ok (tryRemote cfg_ex (fetch i 0) (Some ''http://up/s'') ''states'')"
    by blast
  show ?thesis
    using f h cl cs rl rs 1 2 3 4 5 6 by blast
qed

subsection \<open>Endpoints that bypass the resource state\<close>

text \<open>
  Claim C9. \<open>/health\<close> and \<open>/api/proxy\<close> return the state they were given, whatever the
  upstream answers, and their response and their calls are the same from any two states:
  they read none of the caches, counters, deadlines and flags.
\<close>

theorem probes_bypass_resource_state:
  "fst (health_handler cfg inp st) = st
   \<and> snd (health_handler cfg inp st) = snd (health_handler cfg inp st')
   \<and> fst (proxy_handler cfg inp p st) = st
   \<and> snd (proxy_handler cfg inp p st) = snd (proxy_handler cfg inp p st')"
  by (simp add: health_handler_def proxy_handler_def Let_def split: prod.splits)

theorem probes_bypass_resource_state_witness:
  "fst (health_handler cfg_ex inp_ok st_backoff) = st_backoff
   \<and> snd (health_handler cfg_ex inp_ok st_backoff) = snd (health_handler cfg_ex inp_ok initial_state)
   \<and> fst (proxy_handler cfg_ex inp_ok ''http://up/l'' st_backoff) = st_backoff
   \<and> snd (proxy_handler cfg_ex inp_ok ''http://up/l'' st_backoff)
       = snd (proxy_handler cfg_ex inp_ok ''http://up/l'' initial_state)"
  using probes_bypass_resource_state [of cfg_ex inp_ok st_backoff initial_state "''http://up/l''"]
  by simp

subsection \<open>Answers without a live success\<close>

text \<open>
  A request that makes no live call, or whose live call fails, answers with the fallback
  code run on a state that has the cache of the state before and the flag lowered.
\<close>

lemma locations_handler_not_live:
  assumes "snd (snd (locations_handler cfg inp st)) = []
      \<or> \<not> ok (tryRemote cfg (fetch inp 0) (toAbs cfg (LOCATIONS_URL cfg)) ''locations'')"
  shows "\<exists>st'. cacheLocations st' = cacheLocations st \<and> \<not> lastLocationsFallback st'
      \<and> fst (locations_handler cfg inp st) = fst (locations_fallback cfg inp st')
      \<and> fst (snd (locations_handler cfg inp st)) = snd (locations_fallback cfg inp st')"
proof (cases "snd (snd (locations_handler cfg inp st)) = []")
  case True
  have "cacheLocations (st\<lparr>lastLocationsFallback := False\<rparr>) = cacheLocations st
      \<and> \<not> lastLocationsFallback (st\<lparr>lastLocationsFallback := False\<rparr>)"
    by simp
  then show ?thesis
    using locations_handler_skipped [OF True] by (metis fst_conv snd_conv)
next
  case False
  let ?out = "tryRemote cfg (fetch inp 0) (toAbs cfg (LOCATIONS_URL cfg)) ''locations''"
  let ?st' = "onFail cfg ''locations'' (now_fail inp) (st\<lparr>lastLocationsFallback := False\<rparr>)"
  have n: "\<not> ok ?out" using assms False by blast
  have "cacheLocations ?st' = cacheLocations st \<and> \<not> lastLocationsFallback ?st'"
    by (simp add: onFail_def Let_def)
  moreover have "fst (locations_handler cfg inp st) = fst (locations_fallback cfg inp ?st')
      \<and> fst (snd (locations_handler cfg inp st)) = snd (locations_fallback cfg inp ?st')"
    using n by (simp add: locations_handler_fetched [OF False] locations_resume_def)
  ultimately show ?thesis by blast
qed

lemma states_handler_not_live:
  assumes "snd (snd (states_handler cfg inp st)) = []
      \<or> \<not> ok (tryRemote cfg (fetch inp 0) (toAbs cfg (STATES_URL cfg)) ''states'')"
  shows "\<exists>st'. cacheStates st' = cacheStates st \<and> \<not> lastStatesFallback st'
      \<and> fst (states_handler cfg inp st) = fst (states_fallback cfg inp st')
      \<and> fst (snd (states_handler cfg inp st)) = snd (states_fallback cfg inp st')"
proof (cases "snd (snd (states_handler cfg inp st)) = []")
  case True
  have "cacheStates (st\<lparr>lastStatesFallback := False\<rparr>) = cacheStates st
      \<and> \<not> lastStatesFallback (st\<lparr>lastStatesFallback := False\<rparr>)"
    by simp
  then show ?thesis
    using states_handler_skipped [OF True] by (metis fst_conv snd_conv)
next
  case False
  let ?out = "tryRemote cfg (fetch inp 0) (toAbs cfg (STATES_URL cfg)) ''states''"
  let ?st' = "onFail cfg ''states'' (now_fail inp) (st\<lparr>lastStatesFallback := False\<rparr>)"
  have n: "\<not> ok ?out" using assms False by blast
  have "cacheStates ?st' = cacheStates st \<and> \<not> lastStatesFallback ?st'"
    by (simp add: onFail_def Let_def)
  moreover have "fst (states_handler cfg inp st) = fst (states_fallback cfg inp ?st')
      \<and> fst (snd (states_handler cfg inp st)) = snd (states_fallback cfg inp ?st')"
    using n by (simp add: states_handler_fetched [OF False] states_resume_def)
  ultimately show ?thesis by blast
qed

lemma fallback_unavailable:
  "\<not> DEMO_CONFIGURED cfg \<Longrightarrow>
   (\<not> truthy (data (cacheLocations st)) \<longrightarrow>
      snd (locations_fallback cfg inp st) =
        Response \<lparr>statusCode = 500, headers = [], typeArg = None,
          sent = Json (JObj [(''error'', JStr ''LOCATIONS_URL failed, and demo mode disabled'')])\<rparr>)
   \<and> (\<not> truthy (data (cacheStates st)) \<longrightarrow>
      snd (states_fallback cfg inp st) =
        Response \<lparr>statusCode = 500, headers = [], typeArg = None,
          sent = Json (JObj [(''error'', JStr ''STATES_URL failed, and demo mode disabled'')])\<rparr>)"
  by (simp add: locations_fallback_def states_fallback_def resp_defs)

text \<open>
  Claim C6. With demo mode disabled and no truthy cached data (in particular the empty
  cache the process starts with), a request to \<open>/api/locations\<close> or \<open>/api/states\<close> that
  makes no live call, or whose live call fails, sends a response: status 500 and the JSON
  object \<open>{error: "LOCATIONS_URL failed, and demo mode disabled"}\<close> (resp.
  \<open>STATES_URL\<close>). The handler does not throw on this path.
\<close>

theorem unavailable_is_500:
  assumes "\<not> DEMO_CONFIGURED cfg"
  shows "(\<not> truthy (data (cacheLocations st))
        \<and> (snd (snd (locations_handler cfg inp st)) = []
            \<or> \<not> ok (tryRemote cfg (fetch inp 0) (toAbs cfg (LOCATIONS_URL cfg)) ''locations''))
      \<longrightarrow> fst (snd (locations_handler cfg inp st)) =
        Response \<lparr>statusCode = 500, headers = [], typeArg = None,
          sent = Json (JObj [(''error'', JStr ''LOCATIONS_URL failed, and demo mode disabled'')])\<rparr>)
    \<and> (\<not> truthy (data (cacheStates st))
        \<and> (snd (snd (states_handler cfg inp st)) = []
            \<or> \<not> ok (tryRemote cfg (fetch inp 0) (toAbs cfg (STATES_URL cfg)) ''states''))
      \<longrightarrow> fst (snd (states_handler cfg inp st)) =
        Response \<lparr>statusCode = 500, headers = [], typeArg = None,
          sent = Json (JObj [(''error'', JStr ''STATES_URL failed, and demo mode disabled'')])\<rparr>)"
proof (intro conjI impI)
  assume a: "\<not> truthy (data (cacheLocations st))
        \<and> (snd (snd (locations_handler cfg inp st)) = []
            \<or> \<not> ok (tryRemote cfg (fetch inp 0) (toAbs cfg (LOCATIONS_URL cfg)) ''locations''))"
  then obtain st' where s: "cacheLocations st' = cacheLocations st"
      "fst (snd (locations_handler cfg inp st)) = snd (locations_fallback cfg inp st')"
    using locations_handler_not_live by blast
  from a s(1) have "\<not> truthy (data (cacheLocations st'))" by simp
  with fallback_unavailable [OF assms, of st' inp] s(2)
  show "fst (snd (locations_handler cfg inp st)) =
        Response \<lparr>statusCode = 500, headers = [], typeArg = None,
          sent = Json (JObj [(''error'', JStr ''LOCATIONS_URL failed, and demo mode disabled'')])\<rparr>"
    by simp
next
  assume a: "\<not> truthy (data (cacheStates st))
        \<and> (snd (snd (states_handler cfg inp st)) = []
            \<or> \<not> ok (tryRemote cfg (fetch inp 0) (toAbs cfg (STATES_URL cfg)) ''states''))"
  then obtain st' where s: "cacheStates st' = cacheStates st"
      "fst (snd (states_handler cfg inp st)) = snd (states_fallback cfg inp st')"
    using states_handler_not_live by blast
  from a s(1) have "\<not> truthy (data (cacheStates st'))" by simp
  with fallback_unavailable [OF assms, of st' inp] s(2)
  show "fst (snd (states_handler cfg inp st)) =
        Response \<lparr>statusCode = 500, headers = [], typeArg = None,
          sent = Json (JObj [(''error'', JStr ''STATES_URL failed, and demo mode disabled'')])\<rparr>"
    by simp
qed

lemma toAbs_cfg_nodemo:
  "toAbs cfg_nodemo (LOCATIONS_URL cfg_nodemo) = Some ''http://up/l''
   \<and> toAbs cfg_nodemo (STATES_URL cfg_nodemo) = Some ''http://up/s''"
  by code_simp

theorem unavailable_is_500_witness:
  "\<not> DEMO_CONFIGURED cfg_nodemo
   \<and> \<not> truthy (data (cacheLocations initial_state))
   \<and> \<not> ok (tryRemote cfg_nodemo (fetch inp_ex 0) (Some ''http://up/l'') ''locations'')
   \<and> fst (snd (locations_handler cfg_nodemo inp_ex initial_state)) =
        Response \<lparr>statusCode = 500, headers = [], typeArg = None,
          sent = Json (JObj [(''error'', JStr ''LOCATIONS_URL failed, and demo mode disabled'')])\<rparr>
   \<and> \<not> truthy (data (cacheStates initial_state))
   \<and> \<not> ok (tryRemote cfg_nodemo (fetch inp_ex 0) (Some ''http://up/s'') ''states'')
   \<and> fst (snd (states_handler cfg_nodemo inp_ex initial_state)) =
        Response \<lparr>statusCode = 500, headers = [], typeArg = None,
          sent = Json (JObj [(''error'', JStr ''STATES_URL failed, and demo mode disabled'')])\<rparr>"
proof -
  have d: "\<not> DEMO_CONFIGURED cfg_nodemo" by (simp add: cfg_nodemo_def)
  have c: "\<not> truthy (data (cacheLocations initial_state))"
    "\<not> truthy (data (cacheStates initial_state))"
    by (simp_all add: initial_caches empty_cache_def)
  have f: "\<not> ok (tryRemote cfg_nodemo (fetch inp_ex 0) (Some ''http://up/l'') ''locations'')"
    "\<not> ok (tryRemote cfg_nodemo (fetch inp_ex 0) (Some ''http://up/s'') ''states'')"
    by (simp_all add: tryRemote_inp_ex caught_def)
  note t = unavailable_is_500 [OF d, of initial_state inp_ex,
      unfolded toAbs_cfg_nodemo [THEN conjunct1] toAbs_cfg_nodemo [THEN conjunct2]]
  show ?thesis using d c f t by blast
qed

subsection \<open>Serving the cache\<close>

lemma fallback_cached:
  "(truthy (data (cacheLocations st)) \<longrightarrow>
      locations_fallback cfg inp st =
        (st, Response
          (if contentType (cacheLocations st) = JStr ''application/json''
           then \<lparr>statusCode = 200, headers = [(''X-Cache'', ''hit-locations'')], typeArg = None,
                  sent = Json (data (cacheLocations st))\<rparr>
           else \<lparr>statusCode = 200, headers = [(''X-Cache'', ''hit-locations'')],
                  typeArg = Some (contentType (cacheLocations st)),
                  sent = Send (data (cacheLocations st))\<rparr>)))
   \<and> (truthy (data (cacheStates st)) \<longrightarrow>
      states_fallback cfg inp st =
        (st, Response
          (if contentType (cacheStates st) = JStr ''application/json''
           then \<lparr>statusCode = 200, headers = [(''X-Cache'', ''hit-states'')], typeArg = None,
                  sent = Json (data (cacheStates st))\<rparr>
           else \<lparr>statusCode = 200, headers = [(''X-Cache'', ''hit-states'')],
                  typeArg = Some (contentType (cacheStates st)),
                  sent = Send (data (cacheStates st))\<rparr>)))"
  by (simp add: locations_fallback_def states_fallback_def resp_defs Let_def)

text \<open>
  Claim C4, as amended. When the cached data of a resource is truthy (a non-empty string,
  a non-zero number, \<open>true\<close>, an array or an object) and the request makes no live call
  or its live call fails, the response carries the header \<open>X-Cache: hit-locations\<close>
  (resp. \<open>hit-states\<close>) and no other, and its body is the cached data itself: given to
  \<open>res.json\<close> when the cached content type is \<open>application/json\<close>, and otherwise given to
  \<open>res.send\<close> after \<open>res.type\<close> of the cached content type. The age of the cache plays
  no part, the fallback flag is false afterwards and the cache is unchanged.
\<close>

theorem cached_answer_when_not_live:
  "(truthy (data (cacheLocations st))
      \<and> (snd (snd (locations_handler cfg inp st)) = []
          \<or> \<not> ok (tryRemote cfg (fetch inp 0) (toAbs cfg (LOCATIONS_URL cfg)) ''locations''))
    \<longrightarrow> fst (snd (locations_handler cfg inp st)) =
          Response
            (if contentType (cacheLocations st) = JStr ''application/json''
             then \<lparr>statusCode = 200, headers = [(''X-Cache'', ''hit-locations'')],
                    typeArg = None, sent = Json (data (cacheLocations st))\<rparr>
             else \<lparr>statusCode = 200, headers = [(''X-Cache'', ''hit-locations'')],
                    typeArg = Some (contentType (cacheLocations st)),
                    sent = Send (data (cacheLocations st))\<rparr>)
        \<and> \<not> lastLocationsFallback (fst (locations_handler cfg inp st))
        \<and> cacheLocations (fst (locations_handler cfg inp st)) = cacheLocations st)
   \<and> (truthy (data (cacheStates st))
      \<and> (snd (snd (states_handler cfg inp st)) = []
          \<or> \<not> ok (tryRemote cfg (fetch inp 0) (toAbs cfg (STATES_URL cfg)) ''states''))
    \<longrightarrow> fst (snd (states_handler cfg inp st)) =
          Response
            (if contentType (cacheStates st) = JStr ''application/json''
             then \<lparr>statusCode = 200, headers = [(''X-Cache'', ''hit-states'')],
                    typeArg = None, sent = Json (data (cacheStates st))\<rparr>
             else \<lparr>statusCode = 200, headers = [(''X-Cache'', ''hit-states'')],
                    typeArg = Some (contentType (cacheStates st)),
                    sent = Send (data (cacheStates st))\<rparr>)
        \<and> \<not> lastStatesFallback (fst (states_handler cfg inp st))
        \<and> cacheStates (fst (states_handler cfg inp st)) = cacheStates st)"
proof (intro conjI impI)
  assume a: "truthy (data (cacheLocations st))
      \<and> (snd (snd (locations_handler cfg inp st)) = []
          \<or> \<not> ok (tryRemote cfg (fetch inp 0) (toAbs cfg (LOCATIONS_URL cfg)) ''locations''))"
  then obtain st' where s: "cacheLocations st' = cacheLocations st" "\<not> lastLocationsFallback st'"
      "fst (locations_handler cfg inp st) = fst (locations_fallback cfg inp st')"
      "fst (snd (locations_handler cfg inp st)) = snd (locations_fallback cfg inp st')"
    using locations_handler_not_live by blast
  from a s(1) have t: "truthy (data (cacheLocations st'))" by simp
  from fallback_cached [of st' cfg inp] t s
  show "fst (snd (locations_handler cfg inp st)) =
          Response
            (if contentType (cacheLocations st) = JStr ''application/json''
             then \<lparr>statusCode = 200, headers = [(''X-Cache'', ''hit-locations'')],
                    typeArg = None, sent = Json (data (cacheLocations st))\<rparr>
             else \<lparr>statusCode = 200, headers = [(''X-Cache'', ''hit-locations'')],
                    typeArg = Some (contentType (cacheLocations st)),
                    sent = Send (data (cacheLocations st))\<rparr>)"
    "\<not> lastLocationsFallback (fst (locations_handler cfg inp st))"
    "cacheLocations (fst (locations_handler cfg inp st)) = cacheLocations st"
    by simp_all
next
  assume a: "truthy (data (cacheStates st))
      \<and> (snd (snd (states_handler cfg inp st)) = []
          \<or> \<not> ok (tryRemote cfg (fetch inp 0) (toAbs cfg (STATES_URL cfg)) ''states''))"
  then obtain st' where s: "cacheStates st' = cacheStates st" "\<not> lastStatesFallback st'"
      "fst (states_handler cfg inp st) = fst (states_fallback cfg inp st')"
      "fst (snd (states_handler cfg inp st)) = snd (states_fallback cfg inp st')"
    using states_handler_not_live by blast
  from a s(1) have t: "truthy (data (cacheStates st'))" by simp
  from fallback_cached [of st' cfg inp] t s
  show "fst (snd (states_handler cfg inp st)) =
          Response
            (if contentType (cacheStates st) = JStr ''application/json''
             then \<lparr>statusCode = 200, headers = [(''X-Cache'', ''hit-states'')],
                    typeArg = None, sent = Json (data (cacheStates st))\<rparr>
             else \<lparr>statusCode = 200, headers = [(''X-Cache'', ''hit-states'')],
                    typeArg = Some (contentType (cacheStates st)),
                    sent = Send (data (cacheStates st))\<rparr>)"
    "\<not> lastStatesFallback (fst (states_handler cfg inp st))"
    "cacheStates (fst (states_handler cfg inp st)) = cacheStates st"
    by simp_all
qed

theorem cached_answer_when_not_live_witness:
  "truthy (data (cacheLocations st_cached))
   \<and> \<not> ok (tryRemote cfg_ex (fetch inp_ex 0) (Some ''http://up/l'') ''locations'')
   \<and> fst (snd (locations_handler cfg_ex inp_ex st_cached)) =
        Response \<lparr>statusCode = 200, headers = [(''X-Cache'', ''hit-locations'')],
                   typeArg = None, sent = Json (JArr [JNum 1])\<rparr>
   \<and> \<not> lastLocationsFallback (fst (locations_handler cfg_ex inp_ex st_cached))
   \<and> truthy (data (cacheStates st_cached))
   \<and> \<not> ok (tryRemote cfg_ex (fetch inp_ex 0) (Some ''http://up/s'') ''states'')
   \<and> fst (snd (states_handler cfg_ex inp_ex st_cached)) =
        Response \<lparr>statusCode = 200, headers = [(''X-Cache'', ''hit-states'')],
                   typeArg = Some (JStr ''text/csv''), sent = Send (JStr ''id,state'')\<rparr>
   \<and> \<not> lastStatesFallback (fst (states_handler cfg_ex inp_ex st_cached))"
proof -
  have c: "cacheLocations st_cached =
      \<lparr>data = JArr [JNum 1], contentType = JStr ''application/json'', cache_at = 1000\<rparr>"
    "cacheStates st_cached =
      \<lparr>data = JStr ''id,state'', contentType = JStr ''text/csv'', cache_at = 1000\<rparr>"
    by (simp_all add: st_cached_def)
  have f: "\<not> ok (tryRemote cfg_ex (fetch inp_ex 0) (Some ''http://up/l'') ''locations'')"
    "\<not> ok (tryRemote cfg_ex (fetch inp_ex 0) (Some ''http://up/s'') ''states'')"
    by (simp_all add: tryRemote_inp_ex caught_def)
  note t = cached_answer_when_not_live [of st_cached cfg_ex inp_ex,
      unfolded toAbs_cfg_ex [THEN conjunct1] toAbs_cfg_ex [THEN conjunct2]]
  show ?thesis using f t by (simp add: c)
qed


lemma tryRemote_inp_empty:
  "tryRemote cfg_ex (fetch inp_empty 0) u kind =
     \<lparr>ok = True, status = None, error = None, o_data = JUndefined, o_text = JStr [],
      o_contentType = JStr ''text/plain''\<rparr>"
proof -
  have "toLowerCase ''text/plain'' = ''text/plain''
    \<and> \<not> str_includes ''text/plain'' ''application/json''
    \<and> \<not> str_includes ''text/plain'' ''+json''"
    by code_simp
  then show ?thesis
    by (simp add: tryRemote_def fetchWithTimeout_def inp_empty_def inp_ex_def r_ok_def Let_def)
qed

lemma inp_empty_clock:
  "now_request inp_empty = 1000 \<and> now_gate inp_empty = 1000 \<and> now_fail inp_empty = 4000"
  by (simp add: inp_empty_def inp_ex_def)

lemma fallback_demo_locations:
  "\<not> truthy (data (cacheLocations st)) \<Longrightarrow> DEMO_CONFIGURED cfg \<Longrightarrow>
   locations_geojson inp = Inr text \<Longrightarrow>
   locations_fallback cfg inp st =
     (st\<lparr>lastLocationsFallback := True\<rparr>,
      Response \<lparr>statusCode = 200, headers = [(''X-Demo-Fallback'', ''locations'')],
                 typeArg = Some (JStr ''application/json''), sent = Send (JStr text)\<rparr>)"
  by (simp add: locations_fallback_def resp_defs Let_def)

text \<open>
  Claim C4 without the amendment fails for a cached value that is falsy. Here the upstream first
  answers 200 with an empty \<open>text/plain\<close> body, which the handler caches; the next
  request times out, and the answer is the demo file with \<open>X-Demo-Fallback\<close>, not the
  cached body with \<open>X-Cache\<close>.
\<close>

theorem cached_falsy_value_counterexample:
  "ok (tryRemote cfg_ex (fetch inp_empty 0) (Some ''http://up/l'') ''locations'')
   \<and> cacheLocations (fst (locations_handler cfg_ex inp_empty initial_state)) =
       \<lparr>data = JStr [], contentType = JStr ''text/plain'', cache_at = 1000\<rparr>
   \<and> \<not> ok (tryRemote cfg_ex (fetch inp_ex 0) (Some ''http://up/l'') ''locations'')
   \<and> fst (snd (locations_handler cfg_ex inp_ex
        (fst (locations_handler cfg_ex inp_empty initial_state)))) =
       Response \<lparr>statusCode = 200, headers = [(''X-Demo-Fallback'', ''locations'')],
                  typeArg = Some (JStr ''application/json''), sent = Send (JStr ''{}'')\<rparr>
   \<and> lastLocationsFallback (fst (locations_handler cfg_ex inp_ex
        (fst (locations_handler cfg_ex inp_empty initial_state))))"
proof -
  let ?s1 = "fst (locations_handler cfg_ex inp_empty initial_state)"
  have o: "ok (tryRemote cfg_ex (fetch inp_empty 0) (Some ''http://up/l'') ''locations'')"
    by (simp add: tryRemote_inp_empty)
  have c: "cacheLocations ?s1 =
      \<lparr>data = JStr [], contentType = JStr ''text/plain'', cache_at = 1000\<rparr>"
    by (subst locations_handler_live_state)
      (simp_all add: toAbs_cfg_ex url_truthy_def initial_state_def inp_empty_clock
        tryRemote_inp_empty)
  have f: "\<not> ok (tryRemote cfg_ex (fetch inp_ex 0) (Some ''http://up/l'') ''locations'')"
    by (simp add: tryRemote_inp_ex caught_def)
  then have "snd (snd (locations_handler cfg_ex inp_ex ?s1)) = []
      \<or> \<not> ok (tryRemote cfg_ex (fetch inp_ex 0) (toAbs cfg_ex (LOCATIONS_URL cfg_ex)) ''locations'')"
    by (simp add: toAbs_cfg_ex)
  from locations_handler_not_live [OF this] obtain st' where
    s: "cacheLocations st' = cacheLocations ?s1"
      "fst (locations_handler cfg_ex inp_ex ?s1) = fst (locations_fallback cfg_ex inp_ex st')"
      "fst (snd (locations_handler cfg_ex inp_ex ?s1)) = snd (locations_fallback cfg_ex inp_ex st')"
    by blast
  have "\<not> truthy (data (cacheLocations st'))" by (simp add: s(1) c)
  moreover have "DEMO_CONFIGURED cfg_ex" by (simp add: cfg_ex_def)
  moreover have "locations_geojson inp_ex = Inr ''{}''" by (simp add: inp_ex_fields)
  ultimately have "locations_fallback cfg_ex inp_ex st' =
     (st'\<lparr>lastLocationsFallback := True\<rparr>,
      Response \<lparr>statusCode = 200, headers = [(''X-Demo-Fallback'', ''locations'')],
                 typeArg = Some (JStr ''application/json''), sent = Send (JStr ''{}'')\<rparr>)"
    by (rule fallback_demo_locations)
  then show ?thesis using o c f s(2,3) by simp
qed

subsection \<open>The fallback flags\<close>

lemma locations_fallback_flag:
  "\<not> lastLocationsFallback st \<Longrightarrow>
   lastLocationsFallback (fst (locations_fallback cfg inp st)) =
     (case snd (locations_fallback cfg inp st) of
        Response r \<Rightarrow> (''X-Demo-Fallback'', ''locations'') \<in> set (headers r)
      | Threw e \<Rightarrow> True)"
  by (simp add: locations_fallback_def resp_defs Let_def split: sum.splits)

lemma states_fallback_flag:
  "\<not> lastStatesFallback st \<Longrightarrow>
   lastStatesFallback (fst (states_fallback cfg inp st)) =
     (case snd (states_fallback cfg inp st) of
        Response r \<Rightarrow> (''X-Demo-Fallback'', ''states'') \<in> set (headers r)
      | Threw e \<Rightarrow> True)"
  by (simp add: states_fallback_def resp_defs Let_def split: sum.splits js_value.splits)

lemma locations_handler_flag:
  "lastLocationsFallback (fst (locations_handler cfg inp st)) =
     (case fst (snd (locations_handler cfg inp st)) of
        Response r \<Rightarrow> (''X-Demo-Fallback'', ''locations'') \<in> set (headers r)
      | Threw e \<Rightarrow> True)"
proof (cases "snd (snd (locations_handler cfg inp st)) = []
    \<or> \<not> ok (tryRemote cfg (fetch inp 0) (toAbs cfg (LOCATIONS_URL cfg)) ''locations'')")
  case True
  from locations_handler_not_live [OF True] obtain st' where
    s: "\<not> lastLocationsFallback st'"
      "fst (locations_handler cfg inp st) = fst (locations_fallback cfg inp st')"
      "fst (snd (locations_handler cfg inp st)) = snd (locations_fallback cfg inp st')"
    by blast
  show ?thesis using locations_fallback_flag [OF s(1), of cfg inp] by (simp add: s(2,3))
next
  case False
  then have ne: "snd (snd (locations_handler cfg inp st)) \<noteq> []"
    and o: "ok (tryRemote cfg (fetch inp 0) (toAbs cfg (LOCATIONS_URL cfg)) ''locations'')"
    by simp_all
  show ?thesis
    using o by (simp add: locations_handler_fetched [OF ne] locations_resume_def onSuccess_def
        resp_defs Let_def)
qed

lemma states_handler_flag:
  "lastStatesFallback (fst (states_handler cfg inp st)) =
     (case fst (snd (states_handler cfg inp st)) of
        Response r \<Rightarrow> (''X-Demo-Fallback'', ''states'') \<in> set (headers r)
      | Threw e \<Rightarrow> True)"
proof (cases "snd (snd (states_handler cfg inp st)) = []
    \<or> \<not> ok (tryRemote cfg (fetch inp 0) (toAbs cfg (STATES_URL cfg)) ''states'')")
  case True
  from states_handler_not_live [OF True] obtain st' where
    s: "\<not> lastStatesFallback st'"
      "fst (states_handler cfg inp st) = fst (states_fallback cfg inp st')"
      "fst (snd (states_handler cfg inp st)) = snd (states_fallback cfg inp st')"
    by blast
  show ?thesis using states_fallback_flag [OF s(1), of cfg inp] by (simp add: s(2,3))
next
  case False
  then have ne: "snd (snd (states_handler cfg inp st)) \<noteq> []"
    and o: "ok (tryRemote cfg (fetch inp 0) (toAbs cfg (STATES_URL cfg)) ''states'')"
    by simp_all
  show ?thesis
    using o by (simp add: states_handler_fetched [OF ne] states_resume_def onSuccess_def
        resp_defs Let_def)
qed

lemma run_append:
  "fst (run cfg (pre @ post) st) = fst (run cfg post (fst (run cfg pre st)))"
proof (induction pre arbitrary: st)
  case Nil
  then show ?case by simp
next
  case (Cons x pre)
  then show ?case by (cases x) (simp add: run_Cons del: run.simps(2))
qed

lemma handle_keeps_flags:
  "(rq \<noteq> GetLocations \<longrightarrow>
      lastLocationsFallback (fst (handle cfg rq inp st)) = lastLocationsFallback st)
   \<and> (rq \<noteq> GetStates \<longrightarrow>
      lastStatesFallback (fst (handle cfg rq inp st)) = lastStatesFallback st)"
  by (cases rq)
    (simp_all add: locations_handler_frame states_handler_frame config_handler_state
      health_handler_state proxy_handler_state)

lemma run_keeps_locations_flag:
  "\<forall>(rq, i) \<in> set reqs. rq \<noteq> GetLocations \<Longrightarrow>
   lastLocationsFallback (fst (run cfg reqs st)) = lastLocationsFallback st"
proof (induction reqs arbitrary: st)
  case Nil
  then show ?case by simp
next
  case (Cons x reqs)
  obtain rq inp where x: "x = (rq, inp)" by (cases x)
  have "rq \<noteq> GetLocations" using Cons.prems x by simp
  then have "lastLocationsFallback (fst (handle cfg rq inp st)) = lastLocationsFallback st"
    using handle_keeps_flags by blast
  moreover have "\<forall>(rq, i) \<in> set reqs. rq \<noteq> GetLocations" using Cons.prems by simp
  ultimately show ?case
    using Cons.IH [of "fst (handle cfg rq inp st)"] x by (simp add: run_Cons del: run.simps(2))
qed

lemma run_keeps_states_flag:
  "\<forall>(rq, i) \<in> set reqs. rq \<noteq> GetStates \<Longrightarrow>
   lastStatesFallback (fst (run cfg reqs st)) = lastStatesFallback st"
proof (induction reqs arbitrary: st)
  case Nil
  then show ?case by simp
next
  case (Cons x reqs)
  obtain rq inp where x: "x = (rq, inp)" by (cases x)
  have "rq \<noteq> GetStates" using Cons.prems x by simp
  then have "lastStatesFallback (fst (handle cfg rq inp st)) = lastStatesFallback st"
    using handle_keeps_flags by blast
  moreover have "\<forall>(rq, i) \<in> set reqs. rq \<noteq> GetStates" using Cons.prems by simp
  ultimately show ?case
    using Cons.IH [of "fst (handle cfg rq inp st)"] x by (simp add: run_Cons del: run.simps(2))
qed

lemma run_last_locations:
  "\<forall>(rq, i) \<in> set post. rq \<noteq> GetLocations \<Longrightarrow>
   lastLocationsFallback (fst (run cfg (pre @ (GetLocations, inp) # post) st)) =
     lastLocationsFallback (fst (locations_handler cfg inp (fst (run cfg pre st))))"
  by (simp add: run_append run_Cons run_keeps_locations_flag del: run.simps(2))

lemma run_last_states:
  "\<forall>(rq, i) \<in> set post. rq \<noteq> GetStates \<Longrightarrow>
   lastStatesFallback (fst (run cfg (pre @ (GetStates, inp) # post) st)) =
     lastStatesFallback (fst (states_handler cfg inp (fst (run cfg pre st))))"
  by (simp add: run_append run_Cons run_keeps_states_flag del: run.simps(2))

lemma config_reports_flags:
  "fst (snd (config_handler cfg inp st)) = Response r \<Longrightarrow>
   \<exists>body. sent r = Json (JObj body)
     \<and> get_prop ''fallbackActive'' body =
         JObj [(''locations'', JBool (lastLocationsFallback st)),
               (''states'', JBool (lastStatesFallback st))]"
  by (auto simp add: config_handler_def resp_defs split: sum.splits)

lemma fallback_not_demo:
  "(\<not> lastLocationsFallback st \<and> snd (locations_fallback cfg inp st) = Response r
      \<and> ((''X-Cache'', ''hit-locations'') \<in> set (headers r) \<or> statusCode r = 500)
    \<longrightarrow> \<not> lastLocationsFallback (fst (locations_fallback cfg inp st)))
   \<and> (\<not> lastStatesFallback st \<and> snd (states_fallback cfg inp st) = Response r
      \<and> ((''X-Cache'', ''hit-states'') \<in> set (headers r) \<or> statusCode r = 500)
    \<longrightarrow> \<not> lastStatesFallback (fst (states_fallback cfg inp st)))"
  by (auto simp add: locations_fallback_def states_fallback_def resp_defs Let_def
      split: if_splits sum.splits js_value.splits)

lemma locations_handler_not_demo:
  assumes "fst (snd (locations_handler cfg inp st)) = Response r"
    and "(''X-Cache'', ''hit-locations'') \<in> set (headers r) \<or> statusCode r = 500"
  shows "\<not> lastLocationsFallback (fst (locations_handler cfg inp st))"
proof (cases "snd (snd (locations_handler cfg inp st)) = []
    \<or> \<not> ok (tryRemote cfg (fetch inp 0) (toAbs cfg (LOCATIONS_URL cfg)) ''locations'')")
  case True
  from locations_handler_not_live [OF True] obtain st' where
    s: "fst (locations_handler cfg inp st) = fst (locations_fallback cfg inp st')"
      "fst (snd (locations_handler cfg inp st)) = snd (locations_fallback cfg inp st')"
      "\<not> lastLocationsFallback st'"
    by blast
  show ?thesis
    using fallback_not_demo [of st' cfg inp r] assms s by simp
next
  case False
  then have ne: "snd (snd (locations_handler cfg inp st)) \<noteq> []"
    and o: "ok (tryRemote cfg (fetch inp 0) (toAbs cfg (LOCATIONS_URL cfg)) ''locations'')"
    by simp_all
  show ?thesis
    using o by (simp add: locations_handler_fetched [OF ne] locations_resume_state onSuccess_def)
qed

lemma states_handler_not_demo:
  assumes "fst (snd (states_handler cfg inp st)) = Response r"
    and "(''X-Cache'', ''hit-states'') \<in> set (headers r) \<or> statusCode r = 500"
  shows "\<not> lastStatesFallback (fst (states_handler cfg inp st))"
proof (cases "snd (snd (states_handler cfg inp st)) = []
    \<or> \<not> ok (tryRemote cfg (fetch inp 0) (toAbs cfg (STATES_URL cfg)) ''states'')")
  case True
  from states_handler_not_live [OF True] obtain st' where
    s: "fst (states_handler cfg inp st) = fst (states_fallback cfg inp st')"
      "fst (snd (states_handler cfg inp st)) = snd (states_fallback cfg inp st')"
      "\<not> lastStatesFallback st'"
    by blast
  show ?thesis
    using fallback_not_demo [of st' cfg inp r] assms s by simp
next
  case False
  then have ne: "snd (snd (states_handler cfg inp st)) \<noteq> []"
    and o: "ok (tryRemote cfg (fetch inp 0) (toAbs cfg (STATES_URL cfg)) ''states'')"
    by simp_all
  show ?thesis
    using o by (simp add: states_handler_fetched [OF ne] states_resume_state onSuccess_def)
qed

subsection \<open>Rounding a product below 16\<close>

lemma pow2_le_of_int: "2 ^ m \<le> (n :: int) \<Longrightarrow> (2 :: rat) ^ m \<le> of_int n"
proof -
  assume "2 ^ m \<le> n"
  then have "(of_int (2 ^ m) :: rat) \<le> of_int n" by (simp only: of_int_le_iff)
  then show ?thesis by (simp only: of_int_power of_int_numeral)
qed

lemma of_int_le_pow2: "(n :: int) \<le> 2 ^ m \<Longrightarrow> of_int n \<le> (2 :: rat) ^ m"
proof -
  assume "n \<le> 2 ^ m"
  then have "(of_int n :: rat) \<le> of_int (2 ^ m)" by (simp only: of_int_le_iff)
  then show ?thesis by (simp only: of_int_power of_int_numeral)
qed

text \<open>The exponent is the one of the binade that holds \<open>x\<close>.\<close>

lemma exponent_correct:
  assumes "0 < x"
  shows "(1 \<le> x \<longrightarrow> 0 \<le> exponent x
            \<and> 2 ^ nat (exponent x) \<le> x \<and> x < 2 ^ nat (exponent x + 1))
       \<and> (x < 1 \<longrightarrow> exponent x < 0
            \<and> 1 / 2 ^ nat (- exponent x) \<le> x \<and> x < 1 / 2 ^ nat (- exponent x - 1))"
proof (intro conjI impI)
  assume x1: "1 \<le> x"
  define n where "n = \<lfloor>x\<rfloor>"
  have n1: "1 \<le> n" using x1 by (simp add: n_def le_floor_iff)
  then have n0: "0 < n" by simp
  have e: "exponent x = bitlen n - 1" using x1 by (simp add: exponent_def n_def)
  have b1: "1 \<le> bitlen n" using n0 by (simp add: bitlen_alt_def)
  from bitlen_bounds [OF n0] have lo: "2 ^ nat (bitlen n - 1) \<le> n" and hi: "n < 2 ^ nat (bitlen n)"
    by simp_all
  show "0 \<le> exponent x" using b1 by (simp add: e)
  have "(2 :: rat) ^ nat (bitlen n - 1) \<le> of_int n" using lo by (rule pow2_le_of_int)
  moreover have "of_int n \<le> x" unfolding n_def by linarith
  ultimately have "2 ^ nat (bitlen n - 1) \<le> x" by linarith
  then show "2 ^ nat (exponent x) \<le> x" by (simp add: e)
  have "n + 1 \<le> 2 ^ nat (bitlen n)" using hi by simp
  then have "(of_int (n + 1) :: rat) \<le> 2 ^ nat (bitlen n)" by (rule of_int_le_pow2)
  moreover have "x < of_int (n + 1)" unfolding n_def by linarith
  ultimately have "x < 2 ^ nat (bitlen n)" by linarith
  then show "x < 2 ^ nat (exponent x + 1)" by (simp add: e)
next
  assume x1: "x < 1"
  define c where "c = \<lceil>1 / x\<rceil>"
  define k where "k = bitlen (c - 1)"
  have y1: "1 < 1 / x" using assms x1 by simp
  have c2: "2 \<le> c" using y1 by (simp add: c_def le_ceiling_iff)
  then have c0: "0 < c - 1" by simp
  have e: "exponent x = - k" using x1 by (simp add: exponent_def c_def k_def)
  have k1: "1 \<le> k" using c0 by (simp add: k_def bitlen_alt_def)
  from bitlen_bounds [OF c0] have lo: "2 ^ nat (k - 1) \<le> c - 1" and hi: "c - 1 < 2 ^ nat k"
    by (simp_all add: k_def)
  show "exponent x < 0" using k1 by (simp add: e)
  have "c \<le> 2 ^ nat k" using hi by simp
  then have "(of_int c :: rat) \<le> 2 ^ nat k" by (rule of_int_le_pow2)
  moreover have "1 / x \<le> of_int c" unfolding c_def by linarith
  ultimately have "1 / x \<le> 2 ^ nat k" by linarith
  then have "1 \<le> 2 ^ nat k * x" using assms by (simp add: pos_divide_le_eq)
  then have "1 / 2 ^ nat k \<le> x" by (simp add: pos_divide_le_eq mult.commute)
  then show "1 / 2 ^ nat (- exponent x) \<le> x" by (simp add: e)
  have "(2 :: rat) ^ nat (k - 1) \<le> of_int (c - 1)" using lo by (rule pow2_le_of_int)
  moreover have "of_int (c - 1) < 1 / x" unfolding c_def by linarith
  ultimately have "2 ^ nat (k - 1) < 1 / x" by linarith
  then have "2 ^ nat (k - 1) * x < 1" using assms by (simp add: pos_less_divide_eq)
  then have "x < 1 / 2 ^ nat (k - 1)" by (simp add: pos_less_divide_eq mult.commute)
  then show "x < 1 / 2 ^ nat (- exponent x - 1)" by (simp add: e)
qed

lemma round_even_ge: "of_int M \<le> q \<Longrightarrow> M \<le> round_even q"
proof -
  assume "of_int M \<le> q"
  then have "M \<le> \<lfloor>q\<rfloor>" by (simp add: le_floor_iff)
  then show ?thesis by (simp add: round_even_def Let_def)
qed

lemma round_even_less: "q < of_int M - 1 / 2 \<Longrightarrow> round_even q < M"
proof -
  assume a: "q < of_int M - 1 / 2"
  have f: "of_int \<lfloor>q\<rfloor> \<le> q" by simp
  then have "of_int \<lfloor>q\<rfloor> < (of_int M :: rat)" using a by linarith
  then have lt: "\<lfloor>q\<rfloor> < M" by simp
  show ?thesis
  proof (cases "q - of_int \<lfloor>q\<rfloor> < 1 / 2")
    case True
    then show ?thesis using lt by (simp add: round_even_def Let_def)
  next
    case False
    then have "of_int \<lfloor>q\<rfloor> + 1 < (of_int M :: rat)" using a by linarith
    then have "of_int (\<lfloor>q\<rfloor> + 1) < (of_int M :: rat)" by simp
    then have "\<lfloor>q\<rfloor> + 1 < M" by (simp only: of_int_less_iff)
    then show ?thesis using lt by (simp add: round_even_def Let_def)
  qed
qed

lemma exponent_below_16:
  assumes "0 < x" "x < 16"
  shows "exponent x \<le> 3"
proof (cases "1 \<le> x")
  case True
  have "\<lfloor>x\<rfloor> < 2 ^ 4" using assms(2) by (simp add: floor_less_iff)
  then have "bitlen \<lfloor>x\<rfloor> \<le> 4" by (simp add: bitlen_le_iff_power)
  then show ?thesis using True by (simp add: exponent_def)
next
  case False
  then show ?thesis using bitlen_nonneg [of "\<lceil>1 / x\<rceil> - 1"] by (simp add: exponent_def)
qed

lemma ulp_below_16:
  assumes "0 < x" "x < 16"
  shows "\<exists>j \<ge> 49. ulp x = 1 / 2 ^ j"
proof -
  let ?k = "max (exponent x) (- 1022) - 52"
  have k: "?k \<le> - 49" using exponent_below_16 [OF assms] by simp
  then have "ulp x = 1 / 2 ^ nat (- ?k)" by (simp add: ulp_def Let_def)
  moreover have "49 \<le> nat (- ?k)" using k by simp
  ultimately show ?thesis by blast
qed

lemma fl_ge:
  assumes "0 \<le> x" "x < 16" "of_nat m \<le> x"
  shows "of_nat m \<le> fl x"
proof (cases "x = 0")
  case True
  then show ?thesis using assms(3) by (simp add: fl_def)
next
  case False
  then have pos: "0 < x" using assms(1) by simp
  from ulp_below_16 [OF pos assms(2)] obtain j where j: "49 \<le> j" "ulp x = 1 / 2 ^ j" by blast
  have "of_int (int m * 2 ^ j) \<le> x / ulp x"
    using assms(3) by (simp add: j(2) mult_right_mono)
  then have "int m * 2 ^ j \<le> round_even (x / ulp x)" by (rule round_even_ge)
  then have "(of_int (int m * 2 ^ j) :: rat) \<le> of_int (round_even (x / ulp x))"
    by (simp only: of_int_le_iff)
  then have "of_nat m * 2 ^ j \<le> (of_int (round_even (x / ulp x)) :: rat)" by simp
  then have "of_nat m \<le> (of_int (round_even (x / ulp x)) :: rat) / 2 ^ j"
    by (simp add: pos_le_divide_eq)
  then show ?thesis using pos by (simp add: fl_def j(2))
qed

lemma fl_less:
  assumes "0 \<le> x" "x < of_nat m - 1 / 2 ^ 50" "m \<le> 16"
  shows "fl x < of_nat m"
proof (cases "x = 0")
  case True
  then show ?thesis using assms(2) by (simp add: fl_def)
next
  case False
  then have pos: "0 < x" using assms(1) by simp
  have "(of_nat m :: rat) \<le> of_nat 16" using assms(3) by (simp only: of_nat_le_iff)
  then have m16: "(of_nat m :: rat) \<le> 16" by simp
  have "(0 :: rat) \<le> 1 / 2 ^ 50" by simp
  then have x16: "x < 16" using assms(2) m16 by linarith
  from ulp_below_16 [OF pos x16] obtain j where j: "49 \<le> j" "ulp x = 1 / 2 ^ j" by blast
  have half: "(1 :: rat) / 2 \<le> 2 ^ j / 2 ^ 50"
  proof -
    have "(2 :: rat) ^ 49 \<le> 2 ^ j" using j(1) by (intro power_increasing) simp_all
    then show ?thesis by simp
  qed
  have "x * 2 ^ j < (of_nat m - 1 / 2 ^ 50) * 2 ^ j"
    using assms(2) by (simp add: mult_strict_right_mono)
  also have "\<dots> = of_nat m * 2 ^ j - 2 ^ j / 2 ^ 50" by (simp add: algebra_simps)
  also have "\<dots> \<le> of_nat m * 2 ^ j - 1 / 2" using half by linarith
  finally have "x / ulp x < of_int (int m * 2 ^ j) - 1 / 2" by (simp add: j(2))
  then have "round_even (x / ulp x) < int m * 2 ^ j" by (rule round_even_less)
  then have "(of_int (round_even (x / ulp x)) :: rat) < of_int (int m * 2 ^ j)"
    by (simp only: of_int_less_iff)
  then have "(of_int (round_even (x / ulp x)) :: rat) < of_nat m * 2 ^ j" by simp
  then have "(of_int (round_even (x / ulp x)) :: rat) / 2 ^ j < of_nat m"
    by (simp add: pos_divide_less_eq)
  then show ?thesis using pos by (simp add: fl_def j(2))
qed


subsection \<open>Demo data of the states resource\<close>

lemma length_candidates: "length candidates = 12"
  by (simp add: candidates_def)


lemma pick_index:
  assumes "0 \<le> i" "i < 12" "\<lfloor>fl (u * 12)\<rfloor> = i"
  shows "pick u = JStr (candidates ! nat i)"
  using assms by (simp add: pick_def length_candidates Let_def)

lemma pick_interval:
  assumes "m < 12" "of_nat m \<le> u * 12" "u * 12 < of_nat m + 1 - 1 / 2 ^ 50"
  shows "pick u = JStr (candidates ! m)"
proof -
  have x0: "0 \<le> u * 12" using assms(2) of_nat_0_le_iff [of m, where ?'a = rat] by linarith
  have m12: "(of_nat m :: rat) + 1 \<le> 12"
  proof -
    have "(of_nat (Suc m) :: rat) \<le> of_nat 12" using assms(1) by (simp only: of_nat_le_iff)
    then show ?thesis by simp
  qed
  have "(0 :: rat) \<le> 1 / 2 ^ 50" by simp
  then have x16: "u * 12 < 16" using assms(3) m12 by linarith
  have lo: "of_nat m \<le> fl (u * 12)" using x0 x16 assms(2) by (rule fl_ge)
  have "u * 12 < of_nat (Suc m) - 1 / 2 ^ 50" using assms(3) by simp
  then have hi: "fl (u * 12) < of_nat (Suc m)"
    using x0 assms(1) by (intro fl_less) simp_all
  have "\<lfloor>fl (u * 12)\<rfloor> = int m"
    using lo hi by (intro floor_unique) simp_all
  from pick_index [OF _ _ this] show ?thesis using assms(1) by simp
qed




text \<open>
  A draw at which the rounding of the product matters: it is below \<open>10/12\<close>, the exact
  product is half a spacing below 10, and the double product is 10.
\<close>

lemma pick_at_tie:
  "(3752999689475413 / 2 ^ 52 :: rat) * 12 < 10
   \<and> fl (3752999689475413 / 2 ^ 52 * 12) = 10
   \<and> pick (3752999689475413 / 2 ^ 52) = JStr ''22''"
proof -
  define x :: rat where "x = 3752999689475413 / 2 ^ 52 * 12"
  have x10: "x = 10 - 1 / 2 ^ 50" by (simp add: x_def)
  have pos: "0 < x" "x \<noteq> 0" "1 \<le> x" "x < 10" by (simp_all add: x_def)
  have e: "exponent x = 3"
  proof -
    have "\<lfloor>x\<rfloor> = 9" by (intro floor_unique) (simp_all add: x_def)
    moreover have "bitlen 9 = 4" by code_simp
    ultimately show ?thesis using pos(3) by (simp add: exponent_def)
  qed
  have u: "ulp x = 1 / 2 ^ 49" by (simp add: ulp_def e)
  define q :: rat where "q = x / ulp x"
  have q: "q = of_int 5629499534213119 + 1 / 2" unfolding q_def u by (simp add: x_def)
  have fq: "\<lfloor>q\<rfloor> = 5629499534213119"
    by (intro floor_unique) (simp_all add: q)
  have "q - of_int \<lfloor>q\<rfloor> = 1 / 2" by (simp add: fq) (simp add: q)
  then have r: "round_even q = 5629499534213120"
    by (simp add: round_even_def Let_def fq)
  have "fl x = of_int (round_even q) * ulp x"
    using pos by (simp add: fl_def q_def)
  then have f: "fl x = 10" by (simp add: r u)
  have "pick (3752999689475413 / 2 ^ 52) = JStr (candidates ! nat 10)"
  proof (rule pick_index)
    show "\<lfloor>fl (3752999689475413 / 2 ^ 52 * 12)\<rfloor> = 10"
      using f by (simp add: x_def)
  qed simp_all
  then have "pick (3752999689475413 / 2 ^ 52) = JStr ''22''" by (simp add: candidates_def)
  then show ?thesis using pos(4) f by (simp add: x_def)
qed

lemma pick_half: "pick (1 / 2) = JStr ''16''"
proof -
  have "pick (1 / 2) = JStr (candidates ! 6)" by (rule pick_interval) simp_all
  then show ?thesis by (simp add: candidates_def)
qed

subsection \<open>Facts about the demo path and the sample requests\<close>

lemma inp_ex_demo:
  "states_json inp_ex = Inr (JArr [JObj [(''id'', JStr ''a''), (''state'', JStr ''3'')],
                                   JObj [(''id'', JStr ''b''), (''state'', JStr ''7'')]])
   \<and> random inp_ex k = (if k = 0 then 1 / 8 else 1 / 2)"
  by (simp add: inp_ex_def)

lemma randomize_inp_ex:
  "randomize (random inp_ex) 0
     [JObj [(''id'', JStr ''a''), (''state'', JStr ''3'')],
      JObj [(''id'', JStr ''b''), (''state'', JStr ''7'')]] =
   Inr [JObj [(''id'', JStr ''a''), (''state'', JStr ''16'')],
        JObj [(''id'', JStr ''b''), (''state'', JStr ''7'')]]"
  by (simp add: inp_ex_demo pick_half)

lemma fallback_demo_states:
  "\<not> truthy (data (cacheStates st)) \<Longrightarrow> DEMO_CONFIGURED cfg \<Longrightarrow>
   states_json inp = Inr (JArr entries) \<Longrightarrow> randomize (random inp) 0 entries = Inr randomized \<Longrightarrow>
   states_fallback cfg inp st =
     (st\<lparr>lastStatesFallback := True\<rparr>,
      Response \<lparr>statusCode = 200, headers = [(''X-Demo-Fallback'', ''states'')],
                 typeArg = None, sent = Json (JArr randomized)\<rparr>)"
  by (simp add: states_fallback_def resp_defs Let_def)

lemma handlers_timeout_initial:
  "fst (snd (locations_handler cfg_ex inp_ex initial_state)) =
     Response \<lparr>statusCode = 200, headers = [(''X-Demo-Fallback'', ''locations'')],
                typeArg = Some (JStr ''application/json''), sent = Send (JStr ''{}'')\<rparr>
   \<and> fst (snd (states_handler cfg_ex inp_ex initial_state)) =
     Response \<lparr>statusCode = 200, headers = [(''X-Demo-Fallback'', ''states'')],
                typeArg = None,
                sent = Json (JArr [JObj [(''id'', JStr ''a''), (''state'', JStr ''16'')],
                                   JObj [(''id'', JStr ''b''), (''state'', JStr ''7'')]])\<rparr>"
proof -
  have d: "DEMO_CONFIGURED cfg_ex" by (simp add: cfg_ex_def)
  have "snd (snd (locations_handler cfg_ex inp_ex initial_state)) = []
      \<or> \<not> ok (tryRemote cfg_ex (fetch inp_ex 0) (toAbs cfg_ex (LOCATIONS_URL cfg_ex)) ''locations'')"
    by (simp add: tryRemote_inp_ex caught_def)
  from locations_handler_not_live [OF this] obtain st' where
    l: "cacheLocations st' = cacheLocations initial_state"
      "fst (snd (locations_handler cfg_ex inp_ex initial_state))
        = snd (locations_fallback cfg_ex inp_ex st')"
    by blast
  have "\<not> truthy (data (cacheLocations st'))"
    by (simp add: l(1) initial_caches empty_cache_def)
  from fallback_demo_locations [OF this d, of inp_ex "''{}''"]
  have 1: "fst (snd (locations_handler cfg_ex inp_ex initial_state)) =
     Response \<lparr>statusCode = 200, headers = [(''X-Demo-Fallback'', ''locations'')],
                typeArg = Some (JStr ''application/json''), sent = Send (JStr ''{}'')\<rparr>"
    by (simp add: l(2) inp_ex_fields)
  have "snd (snd (states_handler cfg_ex inp_ex initial_state)) = []
      \<or> \<not> ok (tryRemote cfg_ex (fetch inp_ex 0) (toAbs cfg_ex (STATES_URL cfg_ex)) ''states'')"
    by (simp add: tryRemote_inp_ex caught_def)
  from states_handler_not_live [OF this] obtain st' where
    s: "cacheStates st' = cacheStates initial_state"
      "fst (snd (states_handler cfg_ex inp_ex initial_state))
        = snd (states_fallback cfg_ex inp_ex st')"
    by blast
  have "\<not> truthy (data (cacheStates st'))"
    by (simp add: s(1) initial_caches empty_cache_def)
  from fallback_demo_states [OF this d inp_ex_demo [THEN conjunct1] randomize_inp_ex]
  have 2: "fst (snd (states_handler cfg_ex inp_ex initial_state)) =
     Response \<lparr>statusCode = 200, headers = [(''X-Demo-Fallback'', ''states'')],
                typeArg = None,
                sent = Json (JArr [JObj [(''id'', JStr ''a''), (''state'', JStr ''16'')],
                                   JObj [(''id'', JStr ''b''), (''state'', JStr ''7'')]])\<rparr>"
    by (simp add: s(2))
  show ?thesis using 1 2 by simp
qed

lemma handlers_timeout_flagged:
  "fst (snd (locations_handler cfg_ex inp_ex st_flagged)) =
     Response \<lparr>statusCode = 200, headers = [(''X-Cache'', ''hit-locations'')],
                typeArg = None, sent = Json (JArr [JNum 1])\<rparr>
   \<and> fst (snd (states_handler cfg_ex inp_ex st_flagged)) =
     Response \<lparr>statusCode = 200, headers = [(''X-Cache'', ''hit-states'')],
                typeArg = Some (JStr ''text/csv''), sent = Send (JStr ''id,state'')\<rparr>"
proof -
  have c: "cacheLocations st_flagged =
      \<lparr>data = JArr [JNum 1], contentType = JStr ''application/json'', cache_at = 1000\<rparr>"
    "cacheStates st_flagged =
      \<lparr>data = JStr ''id,state'', contentType = JStr ''text/csv'', cache_at = 1000\<rparr>"
    by (simp_all add: st_flagged_def st_cached_def)
  have "snd (snd (locations_handler cfg_ex inp_ex st_flagged)) = []
      \<or> \<not> ok (tryRemote cfg_ex (fetch inp_ex 0) (toAbs cfg_ex (LOCATIONS_URL cfg_ex)) ''locations'')"
    by (simp add: tryRemote_inp_ex caught_def)
  from locations_handler_not_live [OF this] obtain st' where
    l: "cacheLocations st' = cacheLocations st_flagged"
      "fst (snd (locations_handler cfg_ex inp_ex st_flagged))
        = snd (locations_fallback cfg_ex inp_ex st')"
    by blast
  have 1: "fst (snd (locations_handler cfg_ex inp_ex st_flagged)) =
     Response \<lparr>statusCode = 200, headers = [(''X-Cache'', ''hit-locations'')],
                typeArg = None, sent = Json (JArr [JNum 1])\<rparr>"
    using fallback_cached [of st' cfg_ex inp_ex] by (simp add: l c)
  have "snd (snd (states_handler cfg_ex inp_ex st_flagged)) = []
      \<or> \<not> ok (tryRemote cfg_ex (fetch inp_ex 0) (toAbs cfg_ex (STATES_URL cfg_ex)) ''states'')"
    by (simp add: tryRemote_inp_ex caught_def)
  from states_handler_not_live [OF this] obtain st' where
    s: "cacheStates st' = cacheStates st_flagged"
      "fst (snd (states_handler cfg_ex inp_ex st_flagged))
        = snd (states_fallback cfg_ex inp_ex st')"
    by blast
  have 2: "fst (snd (states_handler cfg_ex inp_ex st_flagged)) =
     Response \<lparr>statusCode = 200, headers = [(''X-Cache'', ''hit-states'')],
                typeArg = Some (JStr ''text/csv''), sent = Send (JStr ''id,state'')\<rparr>"
    using fallback_cached [of st' cfg_ex inp_ex] by (simp add: s c)
  show ?thesis using 1 2 by simp
qed

lemma config_handler_flagged:
  "\<exists>body. fst (snd (config_handler cfg_ex inp_ex st_flagged)) =
       Response \<lparr>statusCode = 200, headers = [], typeArg = None, sent = Json (JObj body)\<rparr>"
  by (simp add: config_handler_def cfg_ex_def resp_defs)



lemma set_prop_keys:
  "map fst (set_prop k v kvs) =
     (if k \<in> fst ` set kvs then map fst kvs else map fst kvs @ [k])"
  by (induction kvs) auto





lemma tryRemote_rejected:
  "fetch0 url = Rejected e \<Longrightarrow>
   tryRemote cfg fetch0 url kind =
     \<lparr>ok = False, status = Some 502, error = Some e,
      o_data = JUndefined, o_text = JUndefined, o_contentType = JUndefined\<rparr>"
  by (simp add: tryRemote_def fetchWithTimeout_def caught_def)

lemma proxy_unresolved:
  "\<not> url_truthy (toAbs cfg p) \<Longrightarrow>
   proxy_handler cfg inp p st =
     (st, Response \<lparr>statusCode = 400, headers = [], typeArg = None,
            sent = Json (JObj [(''error'', JStr ''Invalid path or base not set'')])\<rparr>, [])"
  by (simp add: proxy_handler_def resp_defs Let_def)

lemma toAbs_cfg_rel:
  "toAbs cfg_rel (LOCATIONS_URL cfg_rel) = None \<and> toAbs cfg_rel (STATES_URL cfg_rel) = None
   \<and> toAbs cfg_rel ''locations.json'' = None
   \<and> LOCATIONS_URL cfg_rel \<noteq> [] \<and> STATES_URL cfg_rel \<noteq> []"
  by code_simp

lemma fetch_inp_absent:
  "fetch inp_absent k None = Rejected ''TypeError: Failed to parse URL from null''"
  by (simp add: inp_absent_def)

subsection \<open>When the flag is raised\<close>

lemma fallback_demo_result:
  "DEMO_CONFIGURED cfg \<Longrightarrow>
   (\<not> truthy (data (cacheLocations st)) \<longrightarrow>
      snd (locations_fallback cfg inp st) =
        (case locations_geojson inp of
           Inl e \<Rightarrow> Threw e
         | Inr text \<Rightarrow>
             Response \<lparr>statusCode = 200, headers = [(''X-Demo-Fallback'', ''locations'')],
                        typeArg = Some (JStr ''application/json''), sent = Send (JStr text)\<rparr>))
   \<and> (\<not> truthy (data (cacheStates st)) \<longrightarrow>
      snd (states_fallback cfg inp st) =
        (case states_json inp of
           Inl e \<Rightarrow> Threw e
         | Inr base \<Rightarrow>
             (case base of
                JArr entries \<Rightarrow>
                  (case randomize (random inp) 0 entries of
                     Inl e \<Rightarrow> Threw e
                   | Inr out \<Rightarrow>
                       Response \<lparr>statusCode = 200, headers = [(''X-Demo-Fallback'', ''states'')],
                                  typeArg = None, sent = Json (JArr out)\<rparr>)
              | _ \<Rightarrow> Threw ''TypeError'')))"
  by (simp add: locations_fallback_def states_fallback_def resp_defs Let_def
      split: sum.splits js_value.splits)

lemma locations_handler_flag_iff:
  "lastLocationsFallback (fst (locations_handler cfg inp st)) =
     (DEMO_CONFIGURED cfg \<and> \<not> truthy (data (cacheLocations st))
      \<and> (snd (snd (locations_handler cfg inp st)) = []
          \<or> \<not> ok (tryRemote cfg (fetch inp 0) (toAbs cfg (LOCATIONS_URL cfg)) ''locations'')))"
proof (cases "snd (snd (locations_handler cfg inp st)) = []
    \<or> \<not> ok (tryRemote cfg (fetch inp 0) (toAbs cfg (LOCATIONS_URL cfg)) ''locations'')")
  case True
  from locations_handler_not_live [OF True] obtain st' where
    s: "cacheLocations st' = cacheLocations st" "\<not> lastLocationsFallback st'"
      "fst (locations_handler cfg inp st) = fst (locations_fallback cfg inp st')"
    by blast
  show ?thesis using True s(1,2) by (simp add: s(3) locations_fallback_state)
next
  case False
  then have ne: "snd (snd (locations_handler cfg inp st)) \<noteq> []"
    and o: "ok (tryRemote cfg (fetch inp 0) (toAbs cfg (LOCATIONS_URL cfg)) ''locations'')"
    by simp_all
  have "\<not> lastLocationsFallback (fst (locations_handler cfg inp st))"
    using o by (simp add: locations_handler_fetched [OF ne] locations_resume_state onSuccess_def)
  then show ?thesis using False by simp
qed

lemma states_handler_flag_iff:
  "lastStatesFallback (fst (states_handler cfg inp st)) =
     (DEMO_CONFIGURED cfg \<and> \<not> truthy (data (cacheStates st))
      \<and> (snd (snd (states_handler cfg inp st)) = []
          \<or> \<not> ok (tryRemote cfg (fetch inp 0) (toAbs cfg (STATES_URL cfg)) ''states'')))"
proof (cases "snd (snd (states_handler cfg inp st)) = []
    \<or> \<not> ok (tryRemote cfg (fetch inp 0) (toAbs cfg (STATES_URL cfg)) ''states'')")
  case True
  from states_handler_not_live [OF True] obtain st' where
    s: "cacheStates st' = cacheStates st" "\<not> lastStatesFallback st'"
      "fst (states_handler cfg inp st) = fst (states_fallback cfg inp st')"
    by blast
  show ?thesis using True s(1,2) by (simp add: s(3) states_fallback_state)
next
  case False
  then have ne: "snd (snd (states_handler cfg inp st)) \<noteq> []"
    and o: "ok (tryRemote cfg (fetch inp 0) (toAbs cfg (STATES_URL cfg)) ''states'')"
    by simp_all
  have "\<not> lastStatesFallback (fst (states_handler cfg inp st))"
    using o by (simp add: states_handler_fetched [OF ne] states_resume_state onSuccess_def)
  then show ?thesis using False by simp
qed

lemma locations_handler_demo_result:
  assumes "lastLocationsFallback (fst (locations_handler cfg inp st))"
  shows "fst (snd (locations_handler cfg inp st)) =
        (case locations_geojson inp of
           Inl e \<Rightarrow> Threw e
         | Inr text \<Rightarrow>
             Response \<lparr>statusCode = 200, headers = [(''X-Demo-Fallback'', ''locations'')],
                        typeArg = Some (JStr ''application/json''), sent = Send (JStr text)\<rparr>)"
proof -
  from assms have d: "DEMO_CONFIGURED cfg" and c: "\<not> truthy (data (cacheLocations st))"
    and n: "snd (snd (locations_handler cfg inp st)) = []
          \<or> \<not> ok (tryRemote cfg (fetch inp 0) (toAbs cfg (LOCATIONS_URL cfg)) ''locations'')"
    by (simp_all add: locations_handler_flag_iff)
  from locations_handler_not_live [OF n] obtain st' where
    s: "cacheLocations st' = cacheLocations st"
      "fst (snd (locations_handler cfg inp st)) = snd (locations_fallback cfg inp st')"
    by blast
  show ?thesis using fallback_demo_result [OF d, of st' inp] c by (simp add: s)
qed

lemma states_handler_demo_result:
  assumes "lastStatesFallback (fst (states_handler cfg inp st))"
  shows "fst (snd (states_handler cfg inp st)) =
        (case states_json inp of
           Inl e \<Rightarrow> Threw e
         | Inr base \<Rightarrow>
             (case base of
                JArr entries \<Rightarrow>
                  (case randomize (random inp) 0 entries of
                     Inl e \<Rightarrow> Threw e
                   | Inr out \<Rightarrow>
                       Response \<lparr>statusCode = 200, headers = [(''X-Demo-Fallback'', ''states'')],
                                  typeArg = None, sent = Json (JArr out)\<rparr>)
              | _ \<Rightarrow> Threw ''TypeError''))"
proof -
  from assms have d: "DEMO_CONFIGURED cfg" and c: "\<not> truthy (data (cacheStates st))"
    and n: "snd (snd (states_handler cfg inp st)) = []
          \<or> \<not> ok (tryRemote cfg (fetch inp 0) (toAbs cfg (STATES_URL cfg)) ''states'')"
    by (simp_all add: states_handler_flag_iff)
  from states_handler_not_live [OF n] obtain st' where
    s: "cacheStates st' = cacheStates st"
      "fst (snd (states_handler cfg inp st)) = snd (states_fallback cfg inp st')"
    by blast
  show ?thesis using fallback_demo_result [OF d, of st' inp] c by (simp add: s)
qed

lemma resume_ok_keeps_flag:
  "ok out \<Longrightarrow>
   lastLocationsFallback (fst (locations_resume cfg inp now out st)) = lastLocationsFallback st
   \<and> lastStatesFallback (fst (states_resume cfg inp now out st)) = lastStatesFallback st"
  by (simp add: locations_resume_state states_resume_state onSuccess_def)

text \<open>
  Claim C10, as amended. A resource handler lowers its fallback flag before anything
  else: the state it suspends with at the live call is the state it was given with the
  flag false, and when it does not suspend it runs the fallback code on that state. The
  flag is raised only on the demo path. So after a request that ran with no other request
  to the resource in between, the flag is true exactly when the request took the demo
  path: demo mode on, no truthy cached data, and no live success. It then answered with
  the synthetic data and \<open>X-Demo-Fallback\<close>, unless producing the data threw (the sample
  file unreadable or not an array of entries with a \<open>state\<close> to read): then nothing is
  served and the flag stays raised. The flag is false after an answer from the cache and
  after the 500 answer, as it is after a live success. \<open>/config\<close> reports the two flags
  as they are, and requests to other routes do not change a flag, so over requests served
  one after the other the flag reflects the most recent request to the resource. The code
  after a successful live call does not touch the flag: when requests overlap, it is left
  as another request set it.
\<close>

theorem fallback_flag_tracks_demo_path:
  "(case locations_begin cfg inp st of
      Await u st1 \<Rightarrow> st1 = st\<lparr>lastLocationsFallback := False\<rparr>
    | Done st1 r \<Rightarrow> (st1, r) = locations_fallback cfg inp (st\<lparr>lastLocationsFallback := False\<rparr>))
   \<and> (case states_begin cfg inp st of
      Await u st1 \<Rightarrow> st1 = st\<lparr>lastStatesFallback := False\<rparr>
    | Done st1 r \<Rightarrow> (st1, r) = states_fallback cfg inp (st\<lparr>lastStatesFallback := False\<rparr>))
   \<and> lastLocationsFallback (fst (locations_handler cfg inp st)) =
       (DEMO_CONFIGURED cfg \<and> \<not> truthy (data (cacheLocations st))
        \<and> (snd (snd (locations_handler cfg inp st)) = []
            \<or> \<not> ok (tryRemote cfg (fetch inp 0) (toAbs cfg (LOCATIONS_URL cfg)) ''locations'')))
   \<and> lastStatesFallback (fst (states_handler cfg inp st)) =
       (DEMO_CONFIGURED cfg \<and> \<not> truthy (data (cacheStates st))
        \<and> (snd (snd (states_handler cfg inp st)) = []
            \<or> \<not> ok (tryRemote cfg (fetch inp 0) (toAbs cfg (STATES_URL cfg)) ''states'')))
   \<and> (lastLocationsFallback (fst (locations_handler cfg inp st)) \<longrightarrow>
        fst (snd (locations_handler cfg inp st)) =
          (case locations_geojson inp of
             Inl e \<Rightarrow> Threw e
           | Inr text \<Rightarrow>
               Response \<lparr>statusCode = 200, headers = [(''X-Demo-Fallback'', ''locations'')],
                          typeArg = Some (JStr ''application/json''), sent = Send (JStr text)\<rparr>))
   \<and> (lastStatesFallback (fst (states_handler cfg inp st)) \<longrightarrow>
        fst (snd (states_handler cfg inp st)) =
          (case states_json inp of
             Inl e \<Rightarrow> Threw e
           | Inr base \<Rightarrow>
               (case base of
                  JArr entries \<Rightarrow>
                    (case randomize (random inp) 0 entries of
                       Inl e \<Rightarrow> Threw e
                     | Inr out \<Rightarrow>
                         Response \<lparr>statusCode = 200,
                                    headers = [(''X-Demo-Fallback'', ''states'')],
                                    typeArg = None, sent = Json (JArr out)\<rparr>)
                | _ \<Rightarrow> Threw ''TypeError'')))
   \<and> lastLocationsFallback (fst (locations_handler cfg inp st)) =
       (case fst (snd (locations_handler cfg inp st)) of
          Response r \<Rightarrow> (''X-Demo-Fallback'', ''locations'') \<in> set (headers r)
        | Threw e \<Rightarrow> True)
   \<and> lastStatesFallback (fst (states_handler cfg inp st)) =
       (case fst (snd (states_handler cfg inp st)) of
          Response r \<Rightarrow> (''X-Demo-Fallback'', ''states'') \<in> set (headers r)
        | Threw e \<Rightarrow> True)
   \<and> (\<forall>r. fst (snd (locations_handler cfg inp st)) = Response r
          \<and> ((''X-Cache'', ''hit-locations'') \<in> set (headers r) \<or> statusCode r = 500)
        \<longrightarrow> \<not> lastLocationsFallback (fst (locations_handler cfg inp st)))
   \<and> (\<forall>r. fst (snd (states_handler cfg inp st)) = Response r
          \<and> ((''X-Cache'', ''hit-states'') \<in> set (headers r) \<or> statusCode r = 500)
        \<longrightarrow> \<not> lastStatesFallback (fst (states_handler cfg inp st)))
   \<and> (ok out \<longrightarrow>
        lastLocationsFallback (fst (locations_resume cfg inp now out st)) = lastLocationsFallback st
        \<and> lastStatesFallback (fst (states_resume cfg inp now out st)) = lastStatesFallback st)
   \<and> (\<forall>r. fst (snd (config_handler cfg inp st)) = Response r \<longrightarrow>
         (\<exists>body. sent r = Json (JObj body)
            \<and> get_prop ''fallbackActive'' body =
                JObj [(''locations'', JBool (lastLocationsFallback st)),
                      (''states'', JBool (lastStatesFallback st))]))
   \<and> ((\<forall>(rq, i) \<in> set post. rq \<noteq> GetLocations) \<longrightarrow>
        lastLocationsFallback (fst (run cfg (pre @ (GetLocations, inp) # post) st)) =
          (case fst (snd (locations_handler cfg inp (fst (run cfg pre st)))) of
             Response r \<Rightarrow> (''X-Demo-Fallback'', ''locations'') \<in> set (headers r)
           | Threw e \<Rightarrow> True))
   \<and> ((\<forall>(rq, i) \<in> set post. rq \<noteq> GetStates) \<longrightarrow>
        lastStatesFallback (fst (run cfg (pre @ (GetStates, inp) # post) st)) =
          (case fst (snd (states_handler cfg inp (fst (run cfg pre st)))) of
             Response r \<Rightarrow> (''X-Demo-Fallback'', ''states'') \<in> set (headers r)
           | Threw e \<Rightarrow> True))"
proof -
  have first:
    "case locations_begin cfg inp st of
       Await u st1 \<Rightarrow> st1 = st\<lparr>lastLocationsFallback := False\<rparr>
     | Done st1 r \<Rightarrow> (st1, r) = locations_fallback cfg inp (st\<lparr>lastLocationsFallback := False\<rparr>)"
    "case states_begin cfg inp st of
       Await u st1 \<Rightarrow> st1 = st\<lparr>lastStatesFallback := False\<rparr>
     | Done st1 r \<Rightarrow> (st1, r) = states_fallback cfg inp (st\<lparr>lastStatesFallback := False\<rparr>)"
    by (simp_all add: locations_begin_eq states_begin_eq)
  have served:
    "lastLocationsFallback (fst (locations_handler cfg inp st)) \<longrightarrow>
        fst (snd (locations_handler cfg inp st)) =
          (case locations_geojson inp of
             Inl e \<Rightarrow> Threw e
           | Inr text \<Rightarrow>
               Response \<lparr>statusCode = 200, headers = [(''X-Demo-Fallback'', ''locations'')],
                          typeArg = Some (JStr ''application/json''), sent = Send (JStr text)\<rparr>)"
    "lastStatesFallback (fst (states_handler cfg inp st)) \<longrightarrow>
        fst (snd (states_handler cfg inp st)) =
          (case states_json inp of
             Inl e \<Rightarrow> Threw e
           | Inr base \<Rightarrow>
               (case base of
                  JArr entries \<Rightarrow>
                    (case randomize (random inp) 0 entries of
                       Inl e \<Rightarrow> Threw e
                     | Inr out \<Rightarrow>
                         Response \<lparr>statusCode = 200,
                                    headers = [(''X-Demo-Fallback'', ''states'')],
                                    typeArg = None, sent = Json (JArr out)\<rparr>)
                | _ \<Rightarrow> Threw ''TypeError''))"
    using locations_handler_demo_result states_handler_demo_result by blast+
  have cached:
    "\<forall>r. fst (snd (locations_handler cfg inp st)) = Response r
          \<and> ((''X-Cache'', ''hit-locations'') \<in> set (headers r) \<or> statusCode r = 500)
        \<longrightarrow> \<not> lastLocationsFallback (fst (locations_handler cfg inp st))"
    "\<forall>r. fst (snd (states_handler cfg inp st)) = Response r
          \<and> ((''X-Cache'', ''hit-states'') \<in> set (headers r) \<or> statusCode r = 500)
        \<longrightarrow> \<not> lastStatesFallback (fst (states_handler cfg inp st))"
    using locations_handler_not_demo states_handler_not_demo by blast+
  have overlap:
    "ok out \<longrightarrow>
        lastLocationsFallback (fst (locations_resume cfg inp now out st)) = lastLocationsFallback st
        \<and> lastStatesFallback (fst (states_resume cfg inp now out st)) = lastStatesFallback st"
    using resume_ok_keeps_flag by blast
  have report:
    "\<forall>r. fst (snd (config_handler cfg inp st)) = Response r \<longrightarrow>
         (\<exists>body. sent r = Json (JObj body)
            \<and> get_prop ''fallbackActive'' body =
                JObj [(''locations'', JBool (lastLocationsFallback st)),
                      (''states'', JBool (lastStatesFallback st))])"
    using config_reports_flags by blast
  have recent:
    "(\<forall>(rq, i) \<in> set post. rq \<noteq> GetLocations) \<longrightarrow>
        lastLocationsFallback (fst (run cfg (pre @ (GetLocations, inp) # post) st)) =
          (case fst (snd (locations_handler cfg inp (fst (run cfg pre st)))) of
             Response r \<Rightarrow> (''X-Demo-Fallback'', ''locations'') \<in> set (headers r)
           | Threw e \<Rightarrow> True)"
    "(\<forall>(rq, i) \<in> set post. rq \<noteq> GetStates) \<longrightarrow>
        lastStatesFallback (fst (run cfg (pre @ (GetStates, inp) # post) st)) =
          (case fst (snd (states_handler cfg inp (fst (run cfg pre st)))) of
             Response r \<Rightarrow> (''X-Demo-Fallback'', ''states'') \<in> set (headers r)
           | Threw e \<Rightarrow> True)"
    using run_last_locations [of post cfg pre inp st] run_last_states [of post cfg pre inp st]
      locations_handler_flag [of cfg inp "fst (run cfg pre st)"]
      states_handler_flag [of cfg inp "fst (run cfg pre st)"]
    by simp_all
  show ?thesis
    using first served cached overlap report recent
      locations_handler_flag_iff [of cfg inp st] states_handler_flag_iff [of cfg inp st]
      locations_handler_flag [of cfg inp st] states_handler_flag [of cfg inp st]
    by (intro conjI) assumption+
qed

theorem fallback_flag_tracks_demo_path_witness:
  "lastLocationsFallback st_flagged \<and> lastStatesFallback st_flagged
   \<and> fst (snd (locations_handler cfg_ex inp_ex st_flagged)) =
       Response \<lparr>statusCode = 200, headers = [(''X-Cache'', ''hit-locations'')],
                  typeArg = None, sent = Json (JArr [JNum 1])\<rparr>
   \<and> \<not> lastLocationsFallback (fst (locations_handler cfg_ex inp_ex st_flagged))
   \<and> fst (snd (states_handler cfg_ex inp_ex st_flagged)) =
       Response \<lparr>statusCode = 200, headers = [(''X-Cache'', ''hit-states'')],
                  typeArg = Some (JStr ''text/csv''), sent = Send (JStr ''id,state'')\<rparr>
   \<and> \<not> lastStatesFallback (fst (states_handler cfg_ex inp_ex st_flagged))
   \<and> lastLocationsFallback (fst (locations_handler cfg_ex inp_ex initial_state))
   \<and> fst (snd (locations_handler cfg_ex inp_ex initial_state)) =
       Response \<lparr>statusCode = 200, headers = [(''X-Demo-Fallback'', ''locations'')],
                  typeArg = Some (JStr ''application/json''), sent = Send (JStr ''{}'')\<rparr>
   \<and> lastStatesFallback (fst (states_handler cfg_ex inp_ex initial_state))
   \<and> fst (snd (states_handler cfg_ex inp_ex initial_state)) =
       Response \<lparr>statusCode = 200, headers = [(''X-Demo-Fallback'', ''states'')],
                  typeArg = None,
                  sent = Json (JArr [JObj [(''id'', JStr ''a''), (''state'', JStr ''16'')],
                                     JObj [(''id'', JStr ''b''), (''state'', JStr ''7'')]])\<rparr>
   \<and> ok (tryRemote cfg_ex (fetch inp_ok 0) (Some ''http://up/l'') ''locations'')
   \<and> lastLocationsFallback (fst (locations_resume cfg_ex inp_ok 1000
        (tryRemote cfg_ex (fetch inp_ok 0) (Some ''http://up/l'') ''locations'') st_flagged))
   \<and> (\<exists>r body. fst (snd (config_handler cfg_ex inp_ex st_flagged)) = Response r
         \<and> sent r = Json (JObj body)
         \<and> get_prop ''fallbackActive'' body =
             JObj [(''locations'', JBool True), (''states'', JBool True)])
   \<and> reqs_after = [(GetConfig, inp_ex), (GetHealth, inp_ok)]
   \<and> lastLocationsFallback
        (fst (run cfg_ex ([] @ (GetLocations, inp_ex) # reqs_after) initial_state))
   \<and> lastStatesFallback
        (fst (run cfg_ex ([] @ (GetStates, inp_ex) # reqs_after) initial_state))"
proof -
  note t = fallback_flag_tracks_demo_path
    [where cfg = cfg_ex and inp = inp_ex and st = st_flagged and now = 1000
      and out = "tryRemote cfg_ex (fetch inp_ok 0) (Some ''http://up/l'') ''locations''"]
  note u = fallback_flag_tracks_demo_path
    [where cfg = cfg_ex and inp = inp_ex and st = initial_state and pre = "[]"
      and post = reqs_after]
  have f: "lastLocationsFallback st_flagged \<and> lastStatesFallback st_flagged"
    by (simp add: st_flagged_def)
  have p: "\<forall>(rq, i) \<in> set reqs_after. rq \<noteq> GetLocations"
    "\<forall>(rq, i) \<in> set reqs_after. rq \<noteq> GetStates"
    by (simp_all add: reqs_after_def)
  have o: "ok (tryRemote cfg_ex (fetch inp_ok 0) (Some ''http://up/l'') ''locations'')"
    by (simp add: tryRemote_inp_ok)
  have 1: "\<not> lastLocationsFallback (fst (locations_handler cfg_ex inp_ex st_flagged))"
    "\<not> lastStatesFallback (fst (states_handler cfg_ex inp_ex st_flagged))"
    using t handlers_timeout_flagged by auto
  obtain body where b: "fst (snd (config_handler cfg_ex inp_ex st_flagged)) =
       Response \<lparr>statusCode = 200, headers = [], typeArg = None, sent = Json (JObj body)\<rparr>"
    using config_handler_flagged by blast
  from t b have 2: "\<exists>r body. fst (snd (config_handler cfg_ex inp_ex st_flagged)) = Response r
         \<and> sent r = Json (JObj body)
         \<and> get_prop ''fallbackActive'' body =
             JObj [(''locations'', JBool True), (''states'', JBool True)]"
    using f by auto
  from u p have 3: "lastLocationsFallback
        (fst (run cfg_ex ([] @ (GetLocations, inp_ex) # reqs_after) initial_state))"
    "lastStatesFallback
        (fst (run cfg_ex ([] @ (GetStates, inp_ex) # reqs_after) initial_state))"
    using handlers_timeout_initial by auto
  from u have 4: "lastLocationsFallback (fst (locations_handler cfg_ex inp_ex initial_state))"
    "lastStatesFallback (fst (states_handler cfg_ex inp_ex initial_state))"
    using handlers_timeout_initial by auto
  from t o f have 5: "lastLocationsFallback (fst (locations_resume cfg_ex inp_ex 1000
        (tryRemote cfg_ex (fetch inp_ok 0) (Some ''http://up/l'') ''locations'') st_flagged))"
    by blast
  have "locations_resume cfg_ex inp_ok 1000
        (tryRemote cfg_ex (fetch inp_ok 0) (Some ''http://up/l'') ''locations'') st_flagged
      = locations_resume cfg_ex inp_ex 1000
        (tryRemote cfg_ex (fetch inp_ok 0) (Some ''http://up/l'') ''locations'') st_flagged"
    using o by (simp add: locations_resume_def)
  with 5 have 6: "lastLocationsFallback (fst (locations_resume cfg_ex inp_ok 1000
        (tryRemote cfg_ex (fetch inp_ok 0) (Some ''http://up/l'') ''locations'') st_flagged))"
    by simp
  show ?thesis
    using f handlers_timeout_flagged handlers_timeout_initial 1 2 3 4 o 6
    by (simp add: reqs_after_def)
qed

text \<open>
  Claim C10 without the amendment fails in two ways. When the demo file cannot be read,
  the handler has raised the flag and throws: the flag is true and no synthetic data was
  served. And when two requests overlap, both starting before either live call returns,
  the first failing into demo data and the second then succeeding, the second answers
  with live data and the flag is still true.
\<close>

theorem fallback_flag_counterexample:
  "fst (snd (locations_handler cfg_ex inp_unreadable initial_state)) =
       Threw ''Error: ENOENT: no such file or directory''
   \<and> lastLocationsFallback (fst (locations_handler cfg_ex inp_unreadable initial_state))
   \<and> locations_begin cfg_ex inp_ex initial_state = Await (Some ''http://up/l'') initial_state
   \<and> locations_begin cfg_ex inp_ok initial_state = Await (Some ''http://up/l'') initial_state
   \<and> \<not> ok (tryRemote cfg_ex (fetch inp_ex 0) (Some ''http://up/l'') ''locations'')
   \<and> ok (tryRemote cfg_ex (fetch inp_ok 0) (Some ''http://up/l'') ''locations'')
   \<and> snd (locations_resume cfg_ex inp_ex 1000
          (tryRemote cfg_ex (fetch inp_ex 0) (Some ''http://up/l'') ''locations'')
          initial_state) =
       Response \<lparr>statusCode = 200, headers = [(''X-Demo-Fallback'', ''locations'')],
                  typeArg = Some (JStr ''application/json''), sent = Send (JStr ''{}'')\<rparr>
   \<and> snd (locations_resume cfg_ex inp_ok 1000
          (tryRemote cfg_ex (fetch inp_ok 0) (Some ''http://up/l'') ''locations'')
          (fst (locations_resume cfg_ex inp_ex 1000
             (tryRemote cfg_ex (fetch inp_ex 0) (Some ''http://up/l'') ''locations'')
             initial_state))) =
       Response \<lparr>statusCode = 200, headers = [], typeArg = None, sent = Json (JArr [JNum 1])\<rparr>
   \<and> lastLocationsFallback
        (fst (locations_resume cfg_ex inp_ok 1000
          (tryRemote cfg_ex (fetch inp_ok 0) (Some ''http://up/l'') ''locations'')
          (fst (locations_resume cfg_ex inp_ex 1000
             (tryRemote cfg_ex (fetch inp_ex 0) (Some ''http://up/l'') ''locations'')
             initial_state))))"
proof -
  have d: "DEMO_CONFIGURED cfg_ex" by (simp add: cfg_ex_def)
  have e: "\<not> truthy (data (cacheLocations initial_state))"
    by (simp add: initial_caches empty_cache_def)
  have fu: "tryRemote cfg_ex (fetch inp_unreadable 0) u ''locations'' = caught ''Error: timeout''"
    for u
    by (simp add: tryRemote_def fetchWithTimeout_def inp_unreadable_def inp_ex_def)
  have n: "snd (snd (locations_handler cfg_ex inp_unreadable initial_state)) = []
      \<or> \<not> ok (tryRemote cfg_ex (fetch inp_unreadable 0) (toAbs cfg_ex (LOCATIONS_URL cfg_ex))
                ''locations'')"
    by (simp add: fu caught_def)
  have a1: "lastLocationsFallback (fst (locations_handler cfg_ex inp_unreadable initial_state))"
    using d e n by (simp add: locations_handler_flag_iff)
  have a2: "fst (snd (locations_handler cfg_ex inp_unreadable initial_state)) =
       Threw ''Error: ENOENT: no such file or directory''"
    using locations_handler_demo_result [OF a1] by (simp add: inp_unreadable_def)
  have i: "initial_state\<lparr>lastLocationsFallback := False\<rparr> = initial_state"
    by (simp add: initial_state_def)
  have b1: "locations_begin cfg_ex inp_ex initial_state = Await (Some ''http://up/l'') initial_state"
    by (simp add: locations_begin_eq toAbs_cfg_ex url_truthy_def inp_ex_fields i)
      (simp add: initial_state_def)
  have b2: "locations_begin cfg_ex inp_ok initial_state = Await (Some ''http://up/l'') initial_state"
    by (simp add: locations_begin_eq toAbs_cfg_ex url_truthy_def inp_ok_clock i)
      (simp add: initial_state_def)
  have f: "\<not> ok (tryRemote cfg_ex (fetch inp_ex 0) (Some ''http://up/l'') ''locations'')"
    by (simp add: tryRemote_inp_ex caught_def)
  have o: "ok (tryRemote cfg_ex (fetch inp_ok 0) (Some ''http://up/l'') ''locations'')"
    by (simp add: tryRemote_inp_ok)
  let ?sA = "onFail cfg_ex ''locations'' (now_fail inp_ex) initial_state"
  have cA: "\<not> truthy (data (cacheLocations ?sA))"
    using e by (simp add: onFail_caches)
  have rA: "locations_resume cfg_ex inp_ex 1000
          (tryRemote cfg_ex (fetch inp_ex 0) (Some ''http://up/l'') ''locations'') initial_state
      = (?sA\<lparr>lastLocationsFallback := True\<rparr>,
         Response \<lparr>statusCode = 200, headers = [(''X-Demo-Fallback'', ''locations'')],
                    typeArg = Some (JStr ''application/json''), sent = Send (JStr ''{}'')\<rparr>)"
    using f fallback_demo_locations [OF cA d, of inp_ex "''{}''"]
    by (simp add: locations_resume_def inp_ex_fields)
  have rB: "snd (locations_resume cfg_ex inp_ok 1000
          (tryRemote cfg_ex (fetch inp_ok 0) (Some ''http://up/l'') ''locations'')
          (?sA\<lparr>lastLocationsFallback := True\<rparr>)) =
       Response \<lparr>statusCode = 200, headers = [], typeArg = None, sent = Json (JArr [JNum 1])\<rparr>"
    by (simp add: locations_resume_def tryRemote_inp_ok resp_defs)
  have fB: "lastLocationsFallback (fst (locations_resume cfg_ex inp_ok 1000
          (tryRemote cfg_ex (fetch inp_ok 0) (Some ''http://up/l'') ''locations'')
          (?sA\<lparr>lastLocationsFallback := True\<rparr>)))"
    using resume_ok_keeps_flag [OF o] by simp
  show ?thesis
    using a1 a2 b1 b2 f o rB fB by (simp add: rA)
qed

subsection \<open>An absent upstream URL\<close>

lemma health_handler_eq:
  "health_handler cfg inp st =
     (st,
      Response \<lparr>statusCode = 200, headers = [], typeArg = None,
        sent = Json (JObj [(''results'', JObj
          [(''locations'',
              if LOCATIONS_URL cfg \<noteq> []
              then probe (tryRemote cfg (fetch inp 0) (toAbs cfg (LOCATIONS_URL cfg)) ''locations'')
              else JObj [(''ok'', JBool False), (''status'', JNum 400)]),
           (''states'',
              if STATES_URL cfg \<noteq> []
              then probe (tryRemote cfg (fetch inp (if LOCATIONS_URL cfg \<noteq> [] then 1 else 0))
                            (toAbs cfg (STATES_URL cfg)) ''states'')
              else JObj [(''ok'', JBool False), (''status'', JNum 400)])])])\<rparr>,
      (if LOCATIONS_URL cfg \<noteq> [] then [toAbs cfg (LOCATIONS_URL cfg)] else [])
        @ (if STATES_URL cfg \<noteq> [] then [toAbs cfg (STATES_URL cfg)] else []))"
  by (simp add: health_handler_def unprobed_def resp_defs Let_def)

text \<open>
  Claim C8, as amended. An absent URL never reaches the fetcher from a resolution: when
  \<open>toAbs\<close> resolves nothing (as it does for an unset URL), \<open>/api/locations\<close> and
  \<open>/api/states\<close> hand nothing to \<open>tryRemote\<close> and answer from the fallback code, and
  \<open>/api/proxy\<close> answers 400 without a call. \<open>/health\<close> probes a resource exactly when its
  URL is set, and reports \<open>{ok: false, status: 400}\<close> for one that is unset, without a
  call for it. \<open>tryRemote\<close> itself has no check of its argument and no outcome tagged
  "not configured": it hands the argument to \<open>fetch\<close>, and when \<open>fetch\<close> rejects, the
  outcome is \<open>{ok: false, status: 502, error: String(e)}\<close>.
\<close>

theorem absent_url_screened_by_callers:
  "toAbs cfg [] = None
   \<and> (\<not> url_truthy (toAbs cfg (LOCATIONS_URL cfg)) \<longrightarrow>
        locations_handler cfg inp st =
          (fst (locations_fallback cfg inp (st\<lparr>lastLocationsFallback := False\<rparr>)),
           snd (locations_fallback cfg inp (st\<lparr>lastLocationsFallback := False\<rparr>)), []))
   \<and> (\<not> url_truthy (toAbs cfg (STATES_URL cfg)) \<longrightarrow>
        states_handler cfg inp st =
          (fst (states_fallback cfg inp (st\<lparr>lastStatesFallback := False\<rparr>)),
           snd (states_fallback cfg inp (st\<lparr>lastStatesFallback := False\<rparr>)), []))
   \<and> (\<not> url_truthy (toAbs cfg p) \<longrightarrow>
        proxy_handler cfg inp p st =
          (st, Response \<lparr>statusCode = 400, headers = [], typeArg = None,
                 sent = Json (JObj [(''error'', JStr ''Invalid path or base not set'')])\<rparr>, []))
   \<and> health_handler cfg inp st =
       (st,
        Response \<lparr>statusCode = 200, headers = [], typeArg = None,
          sent = Json (JObj [(''results'', JObj
            [(''locations'',
                if LOCATIONS_URL cfg \<noteq> []
                then probe (tryRemote cfg (fetch inp 0) (toAbs cfg (LOCATIONS_URL cfg))
                              ''locations'')
                else JObj [(''ok'', JBool False), (''status'', JNum 400)]),
             (''states'',
                if STATES_URL cfg \<noteq> []
                then probe (tryRemote cfg
                              (fetch inp (if LOCATIONS_URL cfg \<noteq> [] then 1 else 0))
                              (toAbs cfg (STATES_URL cfg)) ''states'')
                else JObj [(''ok'', JBool False), (''status'', JNum 400)])])])\<rparr>,
        (if LOCATIONS_URL cfg \<noteq> [] then [toAbs cfg (LOCATIONS_URL cfg)] else [])
          @ (if STATES_URL cfg \<noteq> [] then [toAbs cfg (STATES_URL cfg)] else []))
   \<and> (LOCATIONS_URL cfg = [] \<and> STATES_URL cfg = [] \<longrightarrow>
        snd (snd (health_handler cfg inp st)) = [])
   \<and> (fetch0 url = Rejected e \<longrightarrow>
        tryRemote cfg fetch0 url kind =
          \<lparr>ok = False, status = Some 502, error = Some e,
           o_data = JUndefined, o_text = JUndefined, o_contentType = JUndefined\<rparr>)"
proof -
  have l: "\<not> url_truthy (toAbs cfg (LOCATIONS_URL cfg)) \<longrightarrow>
        locations_handler cfg inp st =
          (fst (locations_fallback cfg inp (st\<lparr>lastLocationsFallback := False\<rparr>)),
           snd (locations_fallback cfg inp (st\<lparr>lastLocationsFallback := False\<rparr>)), [])"
    using locations_handler_skipped [of cfg inp st] by (simp add: locations_handler_calls)
  have s: "\<not> url_truthy (toAbs cfg (STATES_URL cfg)) \<longrightarrow>
        states_handler cfg inp st =
          (fst (states_fallback cfg inp (st\<lparr>lastStatesFallback := False\<rparr>)),
           snd (states_fallback cfg inp (st\<lparr>lastStatesFallback := False\<rparr>)), [])"
    using states_handler_skipped [of cfg inp st] by (simp add: states_handler_calls)
  have p: "\<not> url_truthy (toAbs cfg p) \<longrightarrow>
        proxy_handler cfg inp p st =
          (st, Response \<lparr>statusCode = 400, headers = [], typeArg = None,
                 sent = Json (JObj [(''error'', JStr ''Invalid path or base not set'')])\<rparr>, [])"
    using proxy_unresolved by blast
  have h: "LOCATIONS_URL cfg = [] \<and> STATES_URL cfg = [] \<longrightarrow>
        snd (snd (health_handler cfg inp st)) = []"
    by (simp add: health_handler_eq)
  have r: "fetch0 url = Rejected e \<longrightarrow>
        tryRemote cfg fetch0 url kind =
          \<lparr>ok = False, status = Some 502, error = Some e,
           o_data = JUndefined, o_text = JUndefined, o_contentType = JUndefined\<rparr>"
    using tryRemote_rejected by blast
  show ?thesis
    using toAbs_empty [of cfg] l s p health_handler_eq [of cfg inp st] h r
    by (intro conjI) assumption+
qed

lemma cfg_half_urls:
  "LOCATIONS_URL cfg_half = [] \<and> STATES_URL cfg_half \<noteq> []
   \<and> toAbs cfg_half (STATES_URL cfg_half) = Some ''http://up/s''"
  by code_simp

theorem absent_url_screened_by_callers_witness:
  "\<not> url_truthy (toAbs cfg_rel (LOCATIONS_URL cfg_rel))
   \<and> snd (snd (locations_handler cfg_rel inp_absent initial_state)) = []
   \<and> \<not> url_truthy (toAbs cfg_rel (STATES_URL cfg_rel))
   \<and> snd (snd (states_handler cfg_rel inp_absent initial_state)) = []
   \<and> \<not> url_truthy (toAbs cfg_rel ''locations.json'')
   \<and> proxy_handler cfg_rel inp_absent ''locations.json'' initial_state =
        (initial_state, Response \<lparr>statusCode = 400, headers = [], typeArg = None,
                 sent = Json (JObj [(''error'', JStr ''Invalid path or base not set'')])\<rparr>, [])
   \<and> LOCATIONS_URL cfg_local = [] \<and> STATES_URL cfg_local = []
   \<and> snd (snd (health_handler cfg_local inp_absent initial_state)) = []
   \<and> LOCATIONS_URL cfg_half = [] \<and> STATES_URL cfg_half \<noteq> []
   \<and> snd (snd (health_handler cfg_half inp_absent initial_state)) = [Some ''http://up/s'']
   \<and> (\<exists>s. fst (snd (health_handler cfg_half inp_absent initial_state)) =
          Response \<lparr>statusCode = 200, headers = [], typeArg = None,
            sent = Json (JObj [(''results'', JObj
              [(''locations'', JObj [(''ok'', JBool False), (''status'', JNum 400)]),
               (''states'', s)])])\<rparr>)
   \<and> fetch inp_absent 0 None = Rejected ''TypeError: Failed to parse URL from null''
   \<and> tryRemote cfg_rel (fetch inp_absent 0) None ''locations'' =
        \<lparr>ok = False, status = Some 502,
         error = Some ''TypeError: Failed to parse URL from null'',
         o_data = JUndefined, o_text = JUndefined, o_contentType = JUndefined\<rparr>"
proof -
  note t = absent_url_screened_by_callers
    [where cfg = cfg_rel and inp = inp_absent and st = initial_state and p = "''locations.json''"
      and ?fetch0.0 = "fetch inp_absent 0" and url = None
      and e = "''TypeError: Failed to parse URL from null''" and kind = "''locations''"]
  note u = absent_url_screened_by_callers
    [where cfg = cfg_local and inp = inp_absent and st = initial_state]
  note v = absent_url_screened_by_callers
    [where cfg = cfg_half and inp = inp_absent and st = initial_state]
  have a: "\<not> url_truthy (toAbs cfg_rel (LOCATIONS_URL cfg_rel))"
    "\<not> url_truthy (toAbs cfg_rel (STATES_URL cfg_rel))"
    "\<not> url_truthy (toAbs cfg_rel ''locations.json'')"
    by (simp_all add: toAbs_cfg_rel url_truthy_def)
  have b: "LOCATIONS_URL cfg_local = [] \<and> STATES_URL cfg_local = []"
    by (simp add: cfg_local_def)
  from t a have 1: "snd (snd (locations_handler cfg_rel inp_absent initial_state)) = []"
    "snd (snd (states_handler cfg_rel inp_absent initial_state)) = []"
    by simp_all
  from t a have 2: "proxy_handler cfg_rel inp_absent ''locations.json'' initial_state =
        (initial_state, Response \<lparr>statusCode = 400, headers = [], typeArg = None,
                 sent = Json (JObj [(''error'', JStr ''Invalid path or base not set'')])\<rparr>, [])"
    by blast
  from u b have 3: "snd (snd (health_handler cfg_local inp_absent initial_state)) = []"
    by blast
  from t fetch_inp_absent have 4: "tryRemote cfg_rel (fetch inp_absent 0) None ''locations'' =
        \<lparr>ok = False, status = Some 502,
         error = Some ''TypeError: Failed to parse URL from null'',
         o_data = JUndefined, o_text = JUndefined, o_contentType = JUndefined\<rparr>"
    by blast
  from v have h: "health_handler cfg_half inp_absent initial_state =
       (initial_state,
        Response \<lparr>statusCode = 200, headers = [], typeArg = None,
          sent = Json (JObj [(''results'', JObj
            [(''locations'', JObj [(''ok'', JBool False), (''status'', JNum 400)]),
             (''states'',
                probe (tryRemote cfg_half (fetch inp_absent 0) (Some ''http://up/s'')
                         ''states''))])])\<rparr>,
        [Some ''http://up/s''])"
    by (simp add: cfg_half_urls)
  have 5: "snd (snd (health_handler cfg_half inp_absent initial_state)) = [Some ''http://up/s'']"
    by (simp add: h)
  have 6: "\<exists>s. fst (snd (health_handler cfg_half inp_absent initial_state)) =
          Response \<lparr>statusCode = 200, headers = [], typeArg = None,
            sent = Json (JObj [(''results'', JObj
              [(''locations'', JObj [(''ok'', JBool False), (''status'', JNum 400)]),
               (''states'', s)])])\<rparr>"
    by (simp add: h)
  show ?thesis using a b 1 2 3 4 5 6 fetch_inp_absent cfg_half_urls by simp
qed

text \<open>
  Claim C8 without the amendment fails: \<open>/health\<close> calls \<open>tryRemote\<close> with \<open>null\<close> when a
  URL is relative and no base is set. \<open>tryRemote\<close> passes it to \<open>fetch\<close>, which rejects
  it, and the outcome carries status 502 and the string of that error; its error is not
  "not configured".
\<close>

theorem not_configured_counterexample:
  "toAbs cfg_rel (LOCATIONS_URL cfg_rel) = None
   \<and> snd (snd (health_handler cfg_rel inp_absent initial_state)) = [None, None]
   \<and> tryRemote cfg_rel (fetch inp_absent 0) None ''locations'' =
        \<lparr>ok = False, status = Some 502,
         error = Some ''TypeError: Failed to parse URL from null'',
         o_data = JUndefined, o_text = JUndefined, o_contentType = JUndefined\<rparr>
   \<and> error (tryRemote cfg_rel (fetch inp_absent 0) None ''locations'')
       \<noteq> Some ''not configured''"
proof -
  have 1: "tryRemote cfg_rel (fetch inp_absent 0) None ''locations'' =
        \<lparr>ok = False, status = Some 502,
         error = Some ''TypeError: Failed to parse URL from null'',
         o_data = JUndefined, o_text = JUndefined, o_contentType = JUndefined\<rparr>"
    by (rule tryRemote_rejected) (rule fetch_inp_absent)
  have 2: "snd (snd (health_handler cfg_rel inp_absent initial_state)) = [None, None]"
    by (simp add: health_handler_def toAbs_cfg_rel Let_def)
  show ?thesis using 1 2 by (simp add: toAbs_cfg_rel)
qed




end
